theory Spec2Isabelle
  imports Complex_Main
begin

unbundle bit_operations_syntax

section \<open>Conventions\<close>

text \<open>
  The programs are Python scripts. Python's unbounded integers are modelled as \<open>int\<close>,
  \<open>None\<close> as \<open>None\<close>, exceptions as values of \<open>py_error\<close>, module-level globals as fields
  of an explicit state record that each function takes and returns.

  Python's floats are modelled as \<open>real\<close>: the operations of the source are kept one by
  one, in the source's order, and evaluated exactly. Where a property depends on the
  rounding of double precision (the EWMA blend, the decoded product), the operations
  are modelled a second time with the rounding written out (type \<open>f64\<close>).
\<close>

datatype py_error = ValueError | KeyError | TypeError

section \<open>Phase 6: offline replay, manual decode (replay\_decode.py)\<close>

text \<open>
  \<^verbatim>\<open>raw = (b1 << 8) | b0\<close> followed by \<^verbatim>\<open>return raw * 0.1\<close>.
\<close>

definition decode_raw :: "int \<Rightarrow> int \<Rightarrow> int" where
  "decode_raw b0 b1 = (push_bit 8 b1) OR b0"

definition decode_voltage_from_bytes :: "int \<Rightarrow> int \<Rightarrow> real" where
  "decode_voltage_from_bytes b0 b1 = (let raw = decode_raw b0 b1 in real_of_int raw * (1 / 10))"

text \<open>The manual message table of the replay script: id to (name, signal name).\<close>

definition MESSAGES :: "int \<rightharpoonup> string \<times> string" where
  "MESSAGES =
     [0x111 \<mapsto> (''ECU_A_STATUS'', ''ECUA_Supply_Voltage''),
      0x112 \<mapsto> (''ECU_B_STATUS'', ''ECUB_Supply_Voltage''),
      0x113 \<mapsto> (''DCDC_STATUS'', ''DCDC_Output_Voltage'')]"

section \<open>The message catalog and the frame (shared by the live phases)\<close>

text \<open>
  The DBC file and the cantools library that parses it are not part of the repository.
  A loaded database is a parameter: its list of messages and its decoder, which returns
  the decoded signal dictionary or raises (\<open>None\<close>).
\<close>

record message_def =
  name :: string
  frame_id :: int

record dbc =
  messages :: "message_def list"
  decode :: "message_def \<Rightarrow> int list \<Rightarrow> (string \<rightharpoonup> real) option"

text \<open>The thirteen arguments of the bridge callback \<^verbatim>\<open>can_frame_v0\<close>.\<close>

record frame =
  version :: int
  ts_mcu_ms :: int
  can_id :: int
  dlc :: int
  b0 :: int
  b1 :: int
  b2 :: int
  b3 :: int
  b4 :: int
  b5 :: int
  b6 :: int
  b7 :: int
  flags :: int

text \<open>\<^verbatim>\<open>bytes([...])\<close> raises ValueError unless every item is in \<open>range(256)\<close>.\<close>

definition bytes :: "int list \<Rightarrow> py_error + int list" where
  "bytes xs = (if list_all (\<lambda>b. 0 \<le> b \<and> b < 256) xs then Inr xs else Inl ValueError)"

definition payload :: "frame \<Rightarrow> int list" where
  "payload f = [b0 f, b1 f, b2 f, b3 f, b4 f, b5 f, b6 f, b7 f]"

text \<open>\<^verbatim>\<open>db.get_message_by_name(n)\<close>: the first message of that name, KeyError if none.\<close>

definition get_message_by_name :: "dbc \<Rightarrow> string \<Rightarrow> py_error + message_def" where
  "get_message_by_name db n =
     (case find (\<lambda>m. name m = n) (messages db) of None \<Rightarrow> Inl KeyError | Some m \<Rightarrow> Inr m)"

section \<open>Phase 8: live rules and remote alerts (Phase 8 main.py)\<close>

subsection \<open>Configuration\<close>

definition SHEET_MIN_INTERVAL_SEC :: real where "SHEET_MIN_INTERVAL_SEC = 10"
definition DELTA_ALERT_V_p8 :: real where "DELTA_ALERT_V_p8 = 8 / 10"
definition DCDC_OK_MIN_V :: real where "DCDC_OK_MIN_V = 135 / 10"
definition DCDC_OK_MAX_V :: real where "DCDC_OK_MAX_V = 147 / 10"
definition EWMA_ALPHA_p8 :: real where "EWMA_ALPHA_p8 = 2 / 10"
definition DRIFT_WINDOW_SEC :: real where "DRIFT_WINDOW_SEC = 20"
definition EARLY_DRIFT_DV_MIN :: real where "EARLY_DRIFT_DV_MIN = 3 / 10"
definition EARLY_DRIFT_TREND_MIN :: real where "EARLY_DRIFT_TREND_MIN = 1 / 100"

definition SIG_NAME_A :: string where "SIG_NAME_A = ''ECUA_Supply_Voltage''"
definition SIG_NAME_B :: string where "SIG_NAME_B = ''ECUB_Supply_Voltage''"
definition SIG_NAME_DCDC :: string where "SIG_NAME_DCDC = ''DCDC_Output_Voltage''"

subsection \<open>State\<close>

text \<open>
  The formatted text of an event is kept as its template and the numbers formatted into
  it (the rendering of the numbers is a display matter).
\<close>

datatype message =
    ECU_A_low real real real
  | ECU_B_low real real real
  | Both_low real real real
  | Drift_text real real

record RuleEvent =
  level :: string
  harness :: string
  rule_name :: string
  message :: message
  ecu_a_v :: real
  ecu_b_v :: real
  dcdc_v :: real

text \<open>
  The module globals written after start-up. \<open>latest_voltages\<close> is a dict with the three
  fixed keys "ECU_A", "ECU_B", "DCDC", here three fields.
\<close>

record state_p8 =
  latest_ECU_A :: "real option"
  latest_ECU_B :: "real option"
  latest_DCDC :: "real option"
  frames_seen_window :: int
  frames_decoded_window :: int
  ewma_delta_a :: "real option"
  drift_history :: "(real \<times> real) list"
  last_sheet_send :: "(string \<times> string \<times> string) \<rightharpoonup> real"

text \<open>The globals \<open>init_dbc\<close> sets once: the database, the three messages, the id map.\<close>

record globals_p8 =
  db :: dbc
  msg_a :: message_def
  msg_b :: message_def
  msg_dcdc :: message_def
  id_to_msg :: "int \<rightharpoonup> message_def"

definition init_dbc :: "dbc \<Rightarrow> py_error + globals_p8" where
  "init_dbc d =
     (case get_message_by_name d ''ECU_A_STATUS'' of Inl e \<Rightarrow> Inl e | Inr ma \<Rightarrow>
      case get_message_by_name d ''ECU_B_STATUS'' of Inl e \<Rightarrow> Inl e | Inr mb \<Rightarrow>
      case get_message_by_name d ''DCDC_STATUS'' of Inl e \<Rightarrow> Inl e | Inr md \<Rightarrow>
        Inr \<lparr> db = d, msg_a = ma, msg_b = mb, msg_dcdc = md,
              id_to_msg = [frame_id ma \<mapsto> ma, frame_id mb \<mapsto> mb, frame_id md \<mapsto> md] \<rparr>)"

subsection \<open>Rule evaluation\<close>

text \<open>
  \<open>update_drift\<close> writes the globals \<open>ewma_delta_a\<close> and \<open>drift_history\<close> and returns
  the pair (EWMA, trend). \<open>trend_of\<close> is its last part, the trend of the history that
  was kept: \<^verbatim>\<open>trend = None\<close>, then the endpoint slope \<^verbatim>\<open>(d1 - d0) / dt\<close> under
  \<^verbatim>\<open>len(drift_history) >= 2\<close> and \<^verbatim>\<open>dt > 0\<close>.
\<close>

definition trend_of :: "(real \<times> real) list \<Rightarrow> real option" where
  "trend_of h =
     (if length h \<ge> 2 then
        (let (t0, d0) = hd h; (t1, d1) = last h; dt = t1 - t0
         in if dt > 0 then Some ((d1 - d0) / dt) else None)
      else None)"

definition update_drift ::
  "int \<Rightarrow> real \<Rightarrow> real \<Rightarrow> state_p8 \<Rightarrow> (real option \<times> real option) \<times> state_p8" where
  "update_drift ts a_v d_v s =
     (let t_sec = real_of_int ts / 1000;
          delta_a = d_v - a_v;
          ewma = (case ewma_delta_a s of
                    None \<Rightarrow> delta_a
                  | Some e \<Rightarrow> EWMA_ALPHA_p8 * delta_a + (1 - EWMA_ALPHA_p8) * e);
          appended = drift_history s @ [(t_sec, delta_a)];
          cutoff = t_sec - DRIFT_WINDOW_SEC;
          kept = filter (\<lambda>(t, d). t \<ge> cutoff) appended
      in ((Some ewma, trend_of kept), s\<lparr>ewma_delta_a := Some ewma, drift_history := kept\<rparr>))"

definition threshold_events :: "real \<Rightarrow> real \<Rightarrow> real \<Rightarrow> RuleEvent list" where
  "threshold_events a b d =
     (let dA = d - a; dB = d - b in
      if DCDC_OK_MIN_V \<le> d \<and> d \<le> DCDC_OK_MAX_V then
        (if dA > DELTA_ALERT_V_p8 \<and> dB \<le> DELTA_ALERT_V_p8 then
           [\<lparr>level = ''ALERT'', harness = ''HARNESS_A'', rule_name = ''HARNESS_A_LOW_VS_DCDC'',
             message = ECU_A_low dA dB d, ecu_a_v = a, ecu_b_v = b, dcdc_v = d\<rparr>]
         else []) @
        (if dB > DELTA_ALERT_V_p8 \<and> dA \<le> DELTA_ALERT_V_p8 then
           [\<lparr>level = ''ALERT'', harness = ''HARNESS_B'', rule_name = ''HARNESS_B_LOW_VS_DCDC'',
             message = ECU_B_low dA dB d, ecu_a_v = a, ecu_b_v = b, dcdc_v = d\<rparr>]
         else []) @
        (if dA > DELTA_ALERT_V_p8 \<and> dB > DELTA_ALERT_V_p8 then
           [\<lparr>level = ''ALERT'', harness = ''HARNESS_C'', rule_name = ''HARNESS_C_BOTH_LOW_VS_DCDC'',
             message = Both_low dA dB d, ecu_a_v = a, ecu_b_v = b, dcdc_v = d\<rparr>]
         else [])
      else [])"

definition drift_events :: "real \<Rightarrow> real \<Rightarrow> real \<Rightarrow> real option \<Rightarrow> real option \<Rightarrow> RuleEvent list" where
  "drift_events a b d ewma trend =
     (case ewma of None \<Rightarrow> [] | Some e \<Rightarrow>
      case trend of None \<Rightarrow> [] | Some tr \<Rightarrow>
        if e \<ge> EARLY_DRIFT_DV_MIN \<and> tr \<ge> EARLY_DRIFT_TREND_MIN then
          [\<lparr>level = ''EARLY'', harness = ''HARNESS_A'', rule_name = ''HARNESS_A_DRIFT'',
            message = Drift_text e tr, ecu_a_v = a, ecu_b_v = b, dcdc_v = d\<rparr>]
        else [])"

text \<open>
  \<open>evaluate_rules\<close>: the early return on a missing voltage, section 1 (absolute delta
  rules, \<open>threshold_events\<close>), the call of \<open>update_drift\<close>, section 2 (the early drift
  rule, \<open>drift_events\<close>).
\<close>

definition evaluate_rules :: "int \<Rightarrow> state_p8 \<Rightarrow> RuleEvent list \<times> state_p8" where
  "evaluate_rules ts s =
     (case latest_ECU_A s of None \<Rightarrow> ([], s) | Some a \<Rightarrow>
      case latest_ECU_B s of None \<Rightarrow> ([], s) | Some b \<Rightarrow>
      case latest_DCDC s of None \<Rightarrow> ([], s) | Some d \<Rightarrow>
        (let r = update_drift ts a d s
         in (threshold_events a b d @ drift_events a b d (fst (fst r)) (snd (fst r)), snd r)))"

subsection \<open>Remote delivery with throttling\<close>

text \<open>
  What the HTTP request does is an input: a response with a status code, an
  \<open>HTTPError\<close>, or any other exception (time-out, network error).
\<close>

datatype http_outcome = Responded int | HTTPError_raised int | Exception_raised

datatype send_result =
    No_url | Throttled | Logged | Non_200 int | HTTPError_logged int | Error_logged

definition throttle_key :: "RuleEvent \<Rightarrow> string \<times> string \<times> string" where
  "throttle_key event = (level event, harness event, rule_name event)"

text \<open>
  \<open>url\<close> is the configured \<open>GSHEETS_WEBHOOK_URL\<close>, \<open>now\<close> the value of \<open>time.time()\<close>
  read by this call.
\<close>

definition send_event_to_sheets ::
  "string \<Rightarrow> real \<Rightarrow> http_outcome \<Rightarrow> RuleEvent \<Rightarrow> state_p8 \<Rightarrow> send_result \<times> state_p8" where
  "send_event_to_sheets url now outcome event s =
     (if url = [] then (No_url, s)
      else
        let key = throttle_key event;
            last_t = (case last_sheet_send s key of None \<Rightarrow> 0 | Some t \<Rightarrow> t)
        in if now - last_t < SHEET_MIN_INTERVAL_SEC then (Throttled, s)
           else
             (case outcome of
                Responded status \<Rightarrow>
                  if status = 200
                  then (Logged, s\<lparr>last_sheet_send := (last_sheet_send s)(key \<mapsto> now)\<rparr>)
                  else (Non_200 status, s)
              | HTTPError_raised code \<Rightarrow> (HTTPError_logged code, s)
              | Exception_raised \<Rightarrow> (Error_logged, s)))"

text \<open>An event is forwarded when the request is attempted.\<close>

definition forwarded :: "send_result \<Rightarrow> bool" where
  "forwarded r = (r \<noteq> No_url \<and> r \<noteq> Throttled)"

subsection \<open>The bridge callback\<close>

text \<open>
  The loop over the events of one frame. \<open>net i\<close> is the clock reading and the HTTP
  outcome met by the \<open>i\<close>-th call of \<open>send_event_to_sheets\<close> in this frame.
\<close>

fun send_all ::
  "string \<Rightarrow> (nat \<Rightarrow> real \<times> http_outcome) \<Rightarrow> nat \<Rightarrow> RuleEvent list \<Rightarrow> state_p8
     \<Rightarrow> (RuleEvent \<times> send_result) list \<times> state_p8" where
  "send_all url net i [] s = ([], s)"
| "send_all url net i (ev # evs) s =
     (let r = send_event_to_sheets url (fst (net i)) (snd (net i)) ev s;
          rest = send_all url net (Suc i) evs (snd r)
      in ((ev, fst r) # fst rest, snd rest))"

text \<open>
  The tail of the callback: evaluate the rules, then print and push every event. The
  callback returns \<open>Inl e\<close> when the exception \<open>e\<close> leaves it, else the events with what
  became of each, and the new state. The identity tests \<^verbatim>\<open>msg is msg_a\<close> are equalities
  of message definitions; \<^verbatim>\<open>decoded[SIG_NAME_A]\<close> raises KeyError for a missing signal.
\<close>

definition evaluate_and_send ::
  "string \<Rightarrow> (nat \<Rightarrow> real \<times> http_outcome) \<Rightarrow> int \<Rightarrow> state_p8
     \<Rightarrow> (RuleEvent \<times> send_result) list \<times> state_p8" where
  "evaluate_and_send url net ts s =
     (let r = evaluate_rules ts s in send_all url net 0 (fst r) (snd r))"

definition can_frame_v0_p8 ::
  "globals_p8 \<Rightarrow> string \<Rightarrow> (nat \<Rightarrow> real \<times> http_outcome) \<Rightarrow> frame \<Rightarrow> state_p8
     \<Rightarrow> py_error + ((RuleEvent \<times> send_result) list \<times> state_p8)" where
  "can_frame_v0_p8 g url net f s0 =
     (let s = s0\<lparr>frames_seen_window := frames_seen_window s0 + 1\<rparr> in
      case bytes (payload f) of
        Inl e \<Rightarrow> Inl e
      | Inr data_bytes \<Rightarrow>
         (case id_to_msg g (can_id f) of
            None \<Rightarrow> Inr ([], s)
          | Some msg \<Rightarrow>
             (case decode (db g) msg data_bytes of
                None \<Rightarrow> Inr ([], s)
              | Some decoded \<Rightarrow>
                 (let s1 = s\<lparr>frames_decoded_window := frames_decoded_window s + 1\<rparr> in
                  if msg = msg_a g then
                    (case decoded SIG_NAME_A of
                       None \<Rightarrow> Inl KeyError
                     | Some v \<Rightarrow>
                         Inr (evaluate_and_send url net (ts_mcu_ms f) (s1\<lparr>latest_ECU_A := Some v\<rparr>)))
                  else if msg = msg_b g then
                    (case decoded SIG_NAME_B of
                       None \<Rightarrow> Inl KeyError
                     | Some v \<Rightarrow>
                         Inr (evaluate_and_send url net (ts_mcu_ms f) (s1\<lparr>latest_ECU_B := Some v\<rparr>)))
                  else if msg = msg_dcdc g then
                    (case decoded SIG_NAME_DCDC of
                       None \<Rightarrow> Inl KeyError
                     | Some v \<Rightarrow>
                         Inr (evaluate_and_send url net (ts_mcu_ms f) (s1\<lparr>latest_DCDC := Some v\<rparr>)))
                  else Inr ([], s1)))))"

section \<open>Phase 7: live rules and statistics (Phase 7 main.py)\<close>

subsection \<open>Configuration\<close>

definition WINDOW_SECONDS :: real where "WINDOW_SECONDS = 60"
definition EWMA_ALPHA_p7 :: real where "EWMA_ALPHA_p7 = 1 / 10"
definition DCDC_NOMINAL_V :: real where "DCDC_NOMINAL_V = 14"
definition DCDC_TOLERANCE :: real where "DCDC_TOLERANCE = 5 / 10"
definition DELTA_ALERT_V_p7 :: real where "DELTA_ALERT_V_p7 = 1"
definition DRIFT_MIN_V :: real where "DRIFT_MIN_V = 3 / 10"
definition TREND_MIN_VPS :: real where "TREND_MIN_VPS = 2 / 1000"

subsection \<open>State\<close>

text \<open>A window entry is the tuple (timestamp, deltaA, deltaB, v\_dcdc).\<close>

record state_p7 =
  V_A :: "real option"
  V_B :: "real option"
  V_D :: "real option"
  frames_seen :: int
  frames_decoded :: int
  window :: "(real \<times> real \<times> real \<times> real) list"
  ewma_deltaA :: "real option"
  ewma_deltaB :: "real option"

record globals_p7 =
  dbc_p7 :: dbc
  MESSAGE_BY_ID :: "int \<rightharpoonup> message_def"
  ID_ECU_A :: int
  ID_ECU_B :: int
  ID_DCDC :: int

text \<open>
  The module's start-up code. In the dict comprehension a later message with the same
  frame id replaces an earlier one.
\<close>

definition load_p7 :: "dbc \<Rightarrow> py_error + globals_p7" where
  "load_p7 d =
     (case get_message_by_name d ''ECU_A_STATUS'' of Inl e \<Rightarrow> Inl e | Inr ma \<Rightarrow>
      case get_message_by_name d ''ECU_B_STATUS'' of Inl e \<Rightarrow> Inl e | Inr mb \<Rightarrow>
      case get_message_by_name d ''DCDC_STATUS'' of Inl e \<Rightarrow> Inl e | Inr md \<Rightarrow>
        Inr \<lparr> dbc_p7 = d,
              MESSAGE_BY_ID = map_of (rev (map (\<lambda>m. (frame_id m, m)) (messages d))),
              ID_ECU_A = frame_id ma, ID_ECU_B = frame_id mb, ID_DCDC = frame_id md \<rparr>)"

text \<open>
  The lines the program prints: the alerts and early warnings (its events, named by
  their bracketed tag) and the decode error line.
\<close>

datatype print_p7 = ALERT string | EARLY string | DECODE_ERROR int

fun is_event :: "print_p7 \<Rightarrow> bool" where
  "is_event (ALERT c) = True"
| "is_event (EARLY c) = True"
| "is_event (DECODE_ERROR i) = False"

fun is_alert :: "print_p7 \<Rightarrow> bool" where
  "is_alert (ALERT c) = True"
| "is_alert (EARLY c) = False"
| "is_alert (DECODE_ERROR i) = False"

fun is_early :: "print_p7 \<Rightarrow> bool" where
  "is_early (ALERT c) = False"
| "is_early (EARLY c) = True"
| "is_early (DECODE_ERROR i) = False"

subsection \<open>Rules and statistics\<close>

text \<open>
  \<open>run_rule_based_harness_checks(deltaA, deltaB)\<close> reads the global \<open>V_D\<close>, here the
  first argument \<open>v_d\<close>. The \<open>if\<close>/\<open>elif\<close>/\<open>elif\<close> chain is kept.
\<close>

definition run_rule_based_harness_checks :: "real \<Rightarrow> real \<Rightarrow> real \<Rightarrow> print_p7 list" where
  "run_rule_based_harness_checks v_d deltaA deltaB =
     (let dcdc_ok = (\<bar>v_d - DCDC_NOMINAL_V\<bar> \<le> DCDC_TOLERANCE) in
      if \<not> dcdc_ok then []
      else
        let low_A = (deltaA \<ge> DELTA_ALERT_V_p7);
            low_B = (deltaB \<ge> DELTA_ALERT_V_p7)
        in if low_A \<and> \<not> low_B then [ALERT ''HARNESS_A'']
           else if low_B \<and> \<not> low_A then [ALERT ''HARNESS_B'']
           else if low_A \<and> low_B then [ALERT ''HARNESS_C'']
           else [])"

text \<open>
  \<open>run_statistical_checks(deltaA, deltaB)\<close> reads the globals \<open>window\<close>, \<open>ewma_deltaA\<close>
  and \<open>ewma_deltaB\<close>, here the arguments \<open>w\<close>, \<open>eA\<close>, \<open>eB\<close>; it does not use its two
  parameters.
\<close>

definition run_statistical_checks ::
  "(real \<times> real \<times> real \<times> real) list \<Rightarrow> real option \<Rightarrow> real option \<Rightarrow> print_p7 list" where
  "run_statistical_checks w eA eB =
     (if length w < 2 then []
      else
        let (t_first, dA_first, dB_first, vD_first) = hd w;
            (t_last, dA_last, dB_last, vD_last) = last w;
            dt = t_last - t_first
        in if dt \<le> 0 then []
           else
             let trendA = (dA_last - dA_first) / dt;
                 trendB = (dB_last - dB_first) / dt;
                 dcdc_stable = (\<bar>vD_last - DCDC_NOMINAL_V\<bar> \<le> DCDC_TOLERANCE)
             in (case eA of None \<Rightarrow> [] | Some a \<Rightarrow>
                   if dcdc_stable \<and> a > DRIFT_MIN_V \<and> trendA > TREND_MIN_VPS
                      \<and> \<bar>trendB\<bar> < TREND_MIN_VPS * (5 / 10)
                   then [EARLY ''HARNESS_A_DRIFT''] else []) @
                (case eB of None \<Rightarrow> [] | Some b \<Rightarrow>
                   if dcdc_stable \<and> b > DRIFT_MIN_V \<and> trendB > TREND_MIN_VPS
                      \<and> \<bar>trendA\<bar> < TREND_MIN_VPS * (5 / 10)
                   then [EARLY ''HARNESS_B_DRIFT''] else []) @
                (case eA of None \<Rightarrow> [] | Some a \<Rightarrow>
                 case eB of None \<Rightarrow> [] | Some b \<Rightarrow>
                   if dcdc_stable \<and> a > DRIFT_MIN_V \<and> b > DRIFT_MIN_V
                      \<and> trendA > TREND_MIN_VPS \<and> trendB > TREND_MIN_VPS
                   then [EARLY ''HARNESS_C_DRIFT''] else []))"

text \<open>\<^verbatim>\<open>while window and window[0][0] < cutoff: window.popleft()\<close>\<close>

fun drop_old :: "real \<Rightarrow> (real \<times> real \<times> real \<times> real) list \<Rightarrow> (real \<times> real \<times> real \<times> real) list" where
  "drop_old cutoff [] = []"
| "drop_old cutoff (x # xs) = (if fst x < cutoff then drop_old cutoff xs else x # xs)"

text \<open>
  \<open>update_stats_and_rules\<close>; \<open>t\<close> is the reading of \<open>now_s()\<close>. An arithmetic operation
  on \<open>None\<close> raises TypeError.
\<close>

definition update_stats_and_rules :: "real \<Rightarrow> state_p7 \<Rightarrow> py_error + (print_p7 list \<times> state_p7)" where
  "update_stats_and_rules t s =
     (case V_D s of None \<Rightarrow> Inl TypeError | Some d \<Rightarrow>
      case V_A s of None \<Rightarrow> Inl TypeError | Some a \<Rightarrow>
      case V_B s of None \<Rightarrow> Inl TypeError | Some b \<Rightarrow>
        (let deltaA = d - a;
             deltaB = d - b;
             appended = window s @ [(t, deltaA, deltaB, d)];
             cutoff = t - WINDOW_SECONDS;
             w = drop_old cutoff appended
         in case ewma_deltaA s of
              None \<Rightarrow>
                Inr (run_rule_based_harness_checks d deltaA deltaB
                       @ run_statistical_checks w (Some deltaA) (Some deltaB),
                     s\<lparr>window := w, ewma_deltaA := Some deltaA, ewma_deltaB := Some deltaB\<rparr>)
            | Some eA \<Rightarrow>
               (case ewma_deltaB s of
                  None \<Rightarrow> Inl TypeError
                | Some eB \<Rightarrow>
                   (let eA' = EWMA_ALPHA_p7 * deltaA + (1 - EWMA_ALPHA_p7) * eA;
                        eB' = EWMA_ALPHA_p7 * deltaB + (1 - EWMA_ALPHA_p7) * eB
                    in Inr (run_rule_based_harness_checks d deltaA deltaB
                              @ run_statistical_checks w (Some eA') (Some eB'),
                            s\<lparr>window := w, ewma_deltaA := Some eA', ewma_deltaB := Some eB'\<rparr>)))))"

subsection \<open>The bridge callback\<close>

text \<open>
  \<^verbatim>\<open>float(decoded.get(name))\<close>: \<open>get\<close> gives \<open>None\<close> for a missing signal and \<open>float(None)\<close>
  raises TypeError.
\<close>

definition store_voltage :: "globals_p7 \<Rightarrow> message_def \<Rightarrow> (string \<rightharpoonup> real) \<Rightarrow> state_p7 \<Rightarrow> py_error + state_p7" where
  "store_voltage g msg decoded s =
     (if frame_id msg = ID_ECU_A g then
        (case decoded ''ECUA_Supply_Voltage'' of
           None \<Rightarrow> Inl TypeError | Some v \<Rightarrow> Inr (s\<lparr>V_A := Some v\<rparr>))
      else if frame_id msg = ID_ECU_B g then
        (case decoded ''ECUB_Supply_Voltage'' of
           None \<Rightarrow> Inl TypeError | Some v \<Rightarrow> Inr (s\<lparr>V_B := Some v\<rparr>))
      else if frame_id msg = ID_DCDC g then
        (case decoded ''DCDC_Output_Voltage'' of
           None \<Rightarrow> Inl TypeError | Some v \<Rightarrow> Inr (s\<lparr>V_D := Some v\<rparr>))
      else Inr s)"

definition can_frame_v0_p7 ::
  "globals_p7 \<Rightarrow> real \<Rightarrow> frame \<Rightarrow> state_p7 \<Rightarrow> py_error + (print_p7 list \<times> state_p7)" where
  "can_frame_v0_p7 g t f s0 =
     (let s = s0\<lparr>frames_seen := frames_seen s0 + 1\<rparr> in
      case bytes (payload f) of
        Inl e \<Rightarrow> Inl e
      | Inr data \<Rightarrow>
         (case MESSAGE_BY_ID g (can_id f) of
            None \<Rightarrow> Inr ([], s)
          | Some msg \<Rightarrow>
             (case decode (dbc_p7 g) msg data of
                None \<Rightarrow> Inr ([DECODE_ERROR (can_id f)], s)
              | Some decoded \<Rightarrow>
                 (case store_voltage g msg decoded
                         (s\<lparr>frames_decoded := frames_decoded s + 1\<rparr>) of
                    Inl e \<Rightarrow> Inl e
                  | Inr s2 \<Rightarrow>
                      if V_A s2 \<noteq> None \<and> V_B s2 \<noteq> None \<and> V_D s2 \<noteq> None
                      then update_stats_and_rules t s2
                      else Inr ([], s2)))))"

section \<open>The EWMA update in double precision\<close>

text \<open>
  Python floats are IEEE 754 binary64 numbers. For the EWMA update the rounding of each
  operation is modelled: a finite double is the real number it denotes, and an operation
  returns the exact result rounded to the nearest double, ties to even (53 significant
  bits, least exponent -1022 with gradual underflow below it, \<open>Not_finite\<close> for a result
  that rounds beyond the largest double or has an operand that is not finite).
\<close>

definition pow2 :: "int \<Rightarrow> real" where
  "pow2 k = (if 0 \<le> k then 2 ^ nat k else 1 / 2 ^ nat (- k))"

text \<open>Rounding to the nearest integer, ties to the even one.\<close>

definition rne :: "real \<Rightarrow> int" where
  "rne x = (let f = \<lfloor>x\<rfloor>; r = x - of_int f
            in if r < 1 / 2 then f else if 1 / 2 < r then f + 1
               else if even f then f else f + 1)"

text \<open>
  The binary exponent of a positive number: \<open>e\<close> with \<open>2^e \<le> x < 2^(e + 1)\<close>, found by
  halving or doubling at most \<open>n\<close> times.
\<close>

fun bexp :: "nat \<Rightarrow> real \<Rightarrow> int" where
  "bexp 0 x = 0"
| "bexp (Suc n) x =
     (if 2 \<le> x then bexp n (x / 2) + 1 else if x < 1 then bexp n (x * 2) - 1 else 0)"

datatype f64 = Finite real | Not_finite

definition fl64 :: "real \<Rightarrow> f64" where
  "fl64 x =
     (let e = max (bexp 2200 \<bar>x\<bar>) (- 1022);
          u = pow2 (e - 52);
          y = of_int (rne (x / u)) * u
      in if \<bar>y\<bar> < pow2 1024 then Finite y else Not_finite)"

text \<open>An arithmetic operation (\<open>+\<close>, \<open>-\<close>, \<open>*\<close>) on doubles.\<close>

fun fop :: "(real \<Rightarrow> real \<Rightarrow> real) \<Rightarrow> f64 \<Rightarrow> f64 \<Rightarrow> f64" where
  "fop g (Finite x) (Finite y) = fl64 (g x y)"
| "fop g x y = Not_finite"

text \<open>
  The statements \<^verbatim>\<open>delta_a = dcdc_v - ecu_a_v\<close> and
  \<^verbatim>\<open>ewma = delta if ewma is None else ALPHA * delta + (1.0 - ALPHA) * ewma\<close> of \<open>update_drift\<close>
  (Phase 8) and \<open>update_stats_and_rules\<close> (Phase 7), operation by operation. \<open>alpha\<close> is
  the double the literal denotes: \<open>fl64 (2 / 10)\<close> in Phase 8, \<open>fl64 (1 / 10)\<close> in Phase 7.
\<close>

definition ewma_f64 :: "f64 \<Rightarrow> f64 option \<Rightarrow> f64 \<Rightarrow> f64" where
  "ewma_f64 alpha prev delta =
     (case prev of
        None \<Rightarrow> delta
      | Some e \<Rightarrow> fop (+) (fop (*) alpha delta) (fop (*) (fop (-) (Finite 1) alpha) e))"

definition update_ewma_f64 :: "f64 \<Rightarrow> f64 option \<Rightarrow> f64 \<Rightarrow> f64 \<Rightarrow> f64" where
  "update_ewma_f64 alpha prev a_v d_v = ewma_f64 alpha prev (fop (-) d_v a_v)"

text \<open>
  The replay decoder in double precision: \<^verbatim>\<open>raw * 0.1\<close> converts the integer to a double
  and multiplies it by the double the literal \<^verbatim>\<open>0.1\<close> denotes. (For an integer beyond the
  range of doubles Python raises OverflowError, where this gives \<open>Not_finite\<close>; a 16-bit
  value is far below.)
\<close>

definition decode_voltage_from_bytes_f64 :: "int \<Rightarrow> int \<Rightarrow> f64" where
  "decode_voltage_from_bytes_f64 x0 x1 =
     (let raw = decode_raw x0 x1 in fop (*) (fl64 (real_of_int raw)) (fl64 (1 / 10)))"

section \<open>Runs of the live phases\<close>

text \<open>
  The bridge calls the callback once per frame, in arrival order. A run stops at the
  first frame whose callback raises. For Phase 8 every frame comes with the clock
  readings and HTTP outcomes its sends meet, for Phase 7 with the reading of \<open>now_s()\<close>.
\<close>

fun run_p8 ::
  "globals_p8 \<Rightarrow> string \<Rightarrow> (frame \<times> (nat \<Rightarrow> real \<times> http_outcome)) list \<Rightarrow> state_p8
     \<Rightarrow> py_error + state_p8" where
  "run_p8 g url [] s = Inr s"
| "run_p8 g url (fn # fns) s =
     (case can_frame_v0_p8 g url (snd fn) (fst fn) s of
        Inl e \<Rightarrow> Inl e
      | Inr r \<Rightarrow> run_p8 g url fns (snd r))"


text \<open>The values of the globals when the modules have been loaded.\<close>

definition init_p8 :: state_p8 where
  "init_p8 = \<lparr> latest_ECU_A = None, latest_ECU_B = None, latest_DCDC = None,
               frames_seen_window = 0, frames_decoded_window = 0,
               ewma_delta_a = None, drift_history = [], last_sheet_send = Map.empty \<rparr>"

definition init_p7 :: state_p7 where
  "init_p7 = \<lparr> V_A = None, V_B = None, V_D = None, frames_seen = 0, frames_decoded = 0,
               window = [], ewma_deltaA = None, ewma_deltaB = None \<rparr>"

text \<open>
  A concrete database for examples: the three messages of \<open>MESSAGES\<close>, each decoded as
  the replay script decodes it (one 16-bit little-endian signal in bytes 0 and 1).
\<close>

definition demo_dbc :: dbc where
  "demo_dbc =
     \<lparr> messages = [\<lparr>name = ''ECU_A_STATUS'', frame_id = 0x111\<rparr>,
                    \<lparr>name = ''ECU_B_STATUS'', frame_id = 0x112\<rparr>,
                    \<lparr>name = ''DCDC_STATUS'', frame_id = 0x113\<rparr>],
       decode = (\<lambda>m data.
         case MESSAGES (frame_id m) of
           None \<Rightarrow> None
         | Some ns \<Rightarrow>
            (case data of
               x0 # x1 # rest \<Rightarrow> Some [snd ns \<mapsto> decode_voltage_from_bytes x0 x1]
             | _ \<Rightarrow> None)) \<rparr>"

definition demo_globals_p8 :: globals_p8 where
  "demo_globals_p8 =
     \<lparr> db = demo_dbc,
       msg_a = \<lparr>name = ''ECU_A_STATUS'', frame_id = 0x111\<rparr>,
       msg_b = \<lparr>name = ''ECU_B_STATUS'', frame_id = 0x112\<rparr>,
       msg_dcdc = \<lparr>name = ''DCDC_STATUS'', frame_id = 0x113\<rparr>,
       id_to_msg = [0x111 \<mapsto> \<lparr>name = ''ECU_A_STATUS'', frame_id = 0x111\<rparr>,
                    0x112 \<mapsto> \<lparr>name = ''ECU_B_STATUS'', frame_id = 0x112\<rparr>,
                    0x113 \<mapsto> \<lparr>name = ''DCDC_STATUS'', frame_id = 0x113\<rparr>] \<rparr>"

definition demo_globals_p7 :: globals_p7 where
  "demo_globals_p7 =
     \<lparr> dbc_p7 = demo_dbc,
       MESSAGE_BY_ID = [0x111 \<mapsto> \<lparr>name = ''ECU_A_STATUS'', frame_id = 0x111\<rparr>,
                        0x112 \<mapsto> \<lparr>name = ''ECU_B_STATUS'', frame_id = 0x112\<rparr>,
                        0x113 \<mapsto> \<lparr>name = ''DCDC_STATUS'', frame_id = 0x113\<rparr>],
       ID_ECU_A = 0x111, ID_ECU_B = 0x112, ID_DCDC = 0x113 \<rparr>"

text \<open>A frame with the given timestamp, identifier and 16-bit raw value in bytes 0, 1.\<close>

definition demo_frame :: "int \<Rightarrow> int \<Rightarrow> int \<Rightarrow> frame" where
  "demo_frame ts ident raw =
     \<lparr> version = 0, ts_mcu_ms = ts, can_id = ident, dlc = 8,
       b0 = raw mod 256, b1 = raw div 256, b2 = 0, b3 = 0, b4 = 0, b5 = 0, b6 = 0, b7 = 0,
       flags = 0 \<rparr>"

section \<open>Example inputs\<close>

text \<open>The configured webhook address, as the repository ships it.\<close>

definition GSHEETS_WEBHOOK_URL :: string where
  "GSHEETS_WEBHOOK_URL = ''gsheetURLgoeshere''"

text \<open>An alert event, and a network that delivers every request at clock reading \<open>now\<close>.\<close>

definition alert_a :: RuleEvent where
  "alert_a = \<lparr>level = ''ALERT'', harness = ''HARNESS_A'', rule_name = ''HARNESS_A_LOW_VS_DCDC'',
               message = ECU_A_low 1 0 14, ecu_a_v = 13, ecu_b_v = 14, dcdc_v = 14\<rparr>"

definition net_ok :: "real \<Rightarrow> nat \<Rightarrow> real \<times> http_outcome" where
  "net_ok now = (\<lambda>i. (now, Responded 200))"

text \<open>All three voltages at 14.0 V, nothing else seen yet.\<close>

definition warm_p8 :: state_p8 where
  "warm_p8 = init_p8\<lparr>latest_ECU_A := Some 14, latest_ECU_B := Some 14, latest_DCDC := Some 14\<rparr>"

section \<open>Evaluating double-precision operations\<close>

lemma bexp_numeral:
  "bexp (numeral k) x =
     (if 2 \<le> x then bexp (pred_numeral k) (x / 2) + 1
      else if x < 1 then bexp (pred_numeral k) (x * 2) - 1 else 0)"
  by (simp add: numeral_eq_Suc)

lemmas f64_defs = fl64_def bexp_numeral rne_def pow2_def Let_def

section \<open>Properties of the replay decoder\<close>

lemma decode_raw_split: "decode_raw (raw mod 256) (raw div 256) = raw"
proof -
  have "push_bit 8 (drop_bit 8 raw) OR take_bit 8 raw = raw"
    by (rule bit_eqI) (auto simp add: bit_simps)
  then show ?thesis
    by (simp add: decode_raw_def take_bit_eq_mod drop_bit_eq_div)
qed

text \<open>
  Claim C9. Decode round trip for the catalog's signal shape (16-bit little-endian, scale
  0.1, offset 0): for every raw unsigned 16-bit integer, the payload bytes
  \<open>b0 = raw mod 256\<close>, \<open>b1 = raw div 256\<close> decode to \<open>raw * 0.1\<close>, the product the
  implementation computes: in exact arithmetic the tenth of \<open>raw\<close>, in double precision
  the rounded product of \<open>raw\<close> and the double nearest to 0.1.
\<close>

theorem C9_decode_roundtrip:
  "0 \<le> raw \<Longrightarrow> raw < 65536 \<Longrightarrow>
   decode_voltage_from_bytes (raw mod 256) (raw div 256) = real_of_int raw * (1 / 10)
   \<and> decode_voltage_from_bytes_f64 (raw mod 256) (raw div 256)
       = fop (*) (fl64 (real_of_int raw)) (fl64 (1 / 10))"
  by (simp add: decode_voltage_from_bytes_def decode_voltage_from_bytes_f64_def decode_raw_split)

theorem C9_decode_roundtrip_witness:
  "(0::int) \<le> 4660 \<and> (4660::int) < 65536 \<and> decode_voltage_from_bytes 52 18 = 466
   \<and> decode_voltage_from_bytes_f64 137 0 = Finite (7712414361871975 / 2 ^ 49)"
proof -
  have raw: "fl64 (real_of_int 137) = Finite 137"
    by (simp add: f64_defs)
  have tenth: "fl64 (1 / 10) = Finite (3602879701896397 / 2 ^ 55)"
    by (simp add: f64_defs)
  have prod: "fop (*) (Finite 137) (Finite (3602879701896397 / 2 ^ 55))
      = Finite (7712414361871975 / 2 ^ 49)"
    by (simp add: f64_defs)
  have "decode_voltage_from_bytes_f64 (137 mod 256) (137 div 256)
      = Finite (7712414361871975 / 2 ^ 49)"
    using C9_decode_roundtrip [of 137] by (simp only: raw tenth prod)
  then have d: "decode_voltage_from_bytes_f64 137 0 = Finite (7712414361871975 / 2 ^ 49)"
    by simp
  have "decode_voltage_from_bytes 52 18 = 466"
    using C9_decode_roundtrip [of 4660] by simp
  then show ?thesis using d by simp
qed

section \<open>Properties of the rule engines\<close>

lemma threshold_events_length: "length (threshold_events a b d) \<le> 1"
  by (simp add: threshold_events_def Let_def)

lemma threshold_events_alert_length:
  "length (filter (\<lambda>e. level e = ''ALERT'') (threshold_events a b d)) \<le> 1"
  using threshold_events_length [of a b d] length_filter_le [of _ "threshold_events a b d"]
  by (meson le_trans)

lemma drift_events_not_alert:
  "filter (\<lambda>e. level e = ''ALERT'') (drift_events a b d e t) = []"
  by (simp add: drift_events_def split: option.splits)

text \<open>
  Claim C2. In one rule evaluation at most one of the three threshold classifications
  HARNESS\_A, HARNESS\_B, HARNESS\_C fires: the events of level ALERT that \<open>evaluate_rules\<close>
  returns (Phase 8), and the ALERT lines that \<open>run_rule_based_harness_checks\<close> prints
  (Phase 7), are at most one.
\<close>

theorem C2_threshold_exclusive:
  "length (filter (\<lambda>e. level e = ''ALERT'') (fst (evaluate_rules ts s))) \<le> 1
   \<and> length (filter is_alert (run_rule_based_harness_checks v_d deltaA deltaB)) \<le> 1"
proof
  show "length (filter (\<lambda>e. level e = ''ALERT'') (fst (evaluate_rules ts s))) \<le> 1"
    using threshold_events_alert_length
    by (auto simp add: evaluate_rules_def Let_def drift_events_not_alert split: option.splits)
  show "length (filter is_alert (run_rule_based_harness_checks v_d deltaA deltaB)) \<le> 1"
    by (simp add: run_rule_based_harness_checks_def Let_def)
qed

section \<open>Evaluation of examples\<close>

lemmas demo_defs =
  demo_globals_p8_def demo_globals_p7_def demo_dbc_def demo_frame_def MESSAGES_def
  bytes_def payload_def SIG_NAME_A_def SIG_NAME_B_def SIG_NAME_DCDC_def
  decode_voltage_from_bytes_def decode_raw_def init_p8_def init_p7_def warm_p8_def
  GSHEETS_WEBHOOK_URL_def net_ok_def

lemmas config_defs =
  SHEET_MIN_INTERVAL_SEC_def DELTA_ALERT_V_p8_def DCDC_OK_MIN_V_def DCDC_OK_MAX_V_def
  EWMA_ALPHA_p8_def DRIFT_WINDOW_SEC_def EARLY_DRIFT_DV_MIN_def EARLY_DRIFT_TREND_MIN_def
  WINDOW_SECONDS_def EWMA_ALPHA_p7_def DCDC_NOMINAL_V_def DCDC_TOLERANCE_def
  DELTA_ALERT_V_p7_def DRIFT_MIN_V_def TREND_MIN_VPS_def

lemmas p8_defs =
  can_frame_v0_p8_def evaluate_and_send_def evaluate_rules_def update_drift_def trend_of_def
  threshold_events_def drift_events_def send_event_to_sheets_def throttle_key_def
  forwarded_def Let_def

lemmas p7_defs =
  can_frame_v0_p7_def store_voltage_def update_stats_and_rules_def
  run_rule_based_harness_checks_def run_statistical_checks_def Let_def

text \<open>The example globals are what the start-up code computes from the example database.\<close>

lemma init_dbc_demo: "init_dbc demo_dbc = Inr demo_globals_p8"
  by (simp add: init_dbc_def demo_dbc_def demo_globals_p8_def get_message_by_name_def)

lemma load_p7_demo: "load_p7 demo_dbc = Inr demo_globals_p7"
  by (simp add: load_p7_def demo_dbc_def demo_globals_p7_def get_message_by_name_def)

section \<open>The dispatcher of Phase 8\<close>

text \<open>
  Claim C1 says that a submitted event marks its throttle key at submission whether or
  not the delivery succeeds. The code marks the key inside the \<open>status == 200\<close> branch
  only. Counterexample: the same event submitted at time 100 to an empty throttle table
  is attempted in both cases; after the failed delivery the key is unmarked, after the
  successful one it is marked.
\<close>

theorem C1_failure_leaves_key_unmarked:
  "fst (send_event_to_sheets GSHEETS_WEBHOOK_URL 100 Exception_raised alert_a init_p8) = Error_logged
   \<and> last_sheet_send (snd (send_event_to_sheets GSHEETS_WEBHOOK_URL 100 Exception_raised alert_a init_p8))
        (throttle_key alert_a) = None
   \<and> fst (send_event_to_sheets GSHEETS_WEBHOOK_URL 100 (Responded 200) alert_a init_p8) = Logged
   \<and> last_sheet_send (snd (send_event_to_sheets GSHEETS_WEBHOOK_URL 100 (Responded 200) alert_a init_p8))
        (throttle_key alert_a) = Some 100"
  by (simp add: alert_a_def demo_defs config_defs p8_defs)

text \<open>
  Claim C1, amended. \<open>send_event_to_sheets\<close> changes the state in exactly one case: the
  address is set, the event passes the cooldown test and the request is answered with
  status 200; then the event's key is set to the submission time. In every other case
  (no address, throttled, another status, HTTPError, any other exception) the whole
  state, the throttle table included, is as before the call.
\<close>

theorem C1_key_marked_on_200_only:
  "snd (send_event_to_sheets url now outcome ev s) =
     (if url \<noteq> []
         \<and> \<not> now - (case last_sheet_send s (throttle_key ev) of None \<Rightarrow> 0 | Some t \<Rightarrow> t)
                < SHEET_MIN_INTERVAL_SEC
         \<and> outcome = Responded 200
      then s\<lparr>last_sheet_send := (last_sheet_send s)(throttle_key ev \<mapsto> now)\<rparr>
      else s)"
  by (simp add: send_event_to_sheets_def Let_def split: http_outcome.splits)

theorem C1_key_marked_on_200_only_witness:
  "snd (send_event_to_sheets GSHEETS_WEBHOOK_URL 100 (Responded 200) alert_a init_p8)
     = init_p8\<lparr>last_sheet_send := [throttle_key alert_a \<mapsto> 100]\<rparr>
   \<and> snd (send_event_to_sheets GSHEETS_WEBHOOK_URL 100 (Responded 503) alert_a init_p8) = init_p8
   \<and> snd (send_event_to_sheets GSHEETS_WEBHOOK_URL 100 (HTTPError_raised 500) alert_a init_p8) = init_p8
   \<and> snd (send_event_to_sheets GSHEETS_WEBHOOK_URL 100 Exception_raised alert_a init_p8) = init_p8"
  using C1_key_marked_on_200_only [of GSHEETS_WEBHOOK_URL 100 "Responded 200" alert_a init_p8]
    C1_key_marked_on_200_only [of GSHEETS_WEBHOOK_URL 100 "Responded 503" alert_a init_p8]
    C1_key_marked_on_200_only [of GSHEETS_WEBHOOK_URL 100 "HTTPError_raised 500" alert_a init_p8]
    C1_key_marked_on_200_only [of GSHEETS_WEBHOOK_URL 100 Exception_raised alert_a init_p8]
  by (simp add: GSHEETS_WEBHOOK_URL_def init_p8_def SHEET_MIN_INTERVAL_SEC_def)

text \<open>
  Claim C8 says that of two events with the same key submitted less than the cooldown
  apart, the first being forwarded, only the first is forwarded, and that forwarding
  updates the time of the event's key. Counterexample: the first event is forwarded at
  time 100 and its delivery fails; the same event submitted one second later is
  forwarded again, and the first forward has updated no time.
\<close>

theorem C8_second_forwarded_after_failure:
  "forwarded (fst (send_event_to_sheets GSHEETS_WEBHOOK_URL 100 Exception_raised alert_a init_p8))
   \<and> (101::real) - 100 < SHEET_MIN_INTERVAL_SEC
   \<and> forwarded (fst (send_event_to_sheets GSHEETS_WEBHOOK_URL 101 (Responded 200) alert_a
        (snd (send_event_to_sheets GSHEETS_WEBHOOK_URL 100 Exception_raised alert_a init_p8))))
   \<and> last_sheet_send (snd (send_event_to_sheets GSHEETS_WEBHOOK_URL 100 Exception_raised alert_a init_p8))
        (throttle_key alert_a) = None"
  by (simp add: alert_a_def demo_defs config_defs p8_defs)

text \<open>
  Claim C8, amended. If an event is delivered (status 200, result \<open>Logged\<close>) at time
  \<open>t1\<close> and an event with the same throttle key is submitted next at \<open>t2\<close> with
  \<open>t2 - t1\<close> below the cooldown, the second is dropped (no request, state unchanged). A
  delivered event sets the time of its own key to its submission time, and no call
  changes the time of any other key.
\<close>

theorem C8_cooldown_after_delivery:
  "(send_event_to_sheets url t1 out1 e1 s = (Logged, s1) \<and> throttle_key e2 = throttle_key e1
      \<and> t2 - t1 < SHEET_MIN_INTERVAL_SEC
     \<longrightarrow> send_event_to_sheets url t2 out2 e2 s1 = (Throttled, s1))
   \<and> (fst (send_event_to_sheets url t1 out1 e1 s) = Logged
     \<longrightarrow> last_sheet_send (snd (send_event_to_sheets url t1 out1 e1 s)) (throttle_key e1) = Some t1)
   \<and> (k \<noteq> throttle_key e1
     \<longrightarrow> last_sheet_send (snd (send_event_to_sheets url t1 out1 e1 s)) k = last_sheet_send s k)"
  by (auto simp add: send_event_to_sheets_def Let_def split: http_outcome.splits if_splits)

theorem C8_cooldown_after_delivery_witness:
  "send_event_to_sheets GSHEETS_WEBHOOK_URL 100 (Responded 200) alert_a init_p8
     = (Logged, init_p8\<lparr>last_sheet_send := [throttle_key alert_a \<mapsto> 100]\<rparr>)
   \<and> (109::real) - 100 < SHEET_MIN_INTERVAL_SEC
   \<and> send_event_to_sheets GSHEETS_WEBHOOK_URL 109 (Responded 200) alert_a
        (init_p8\<lparr>last_sheet_send := [throttle_key alert_a \<mapsto> 100]\<rparr>)
     = (Throttled, init_p8\<lparr>last_sheet_send := [throttle_key alert_a \<mapsto> 100]\<rparr>)
   \<and> last_sheet_send (snd (send_event_to_sheets GSHEETS_WEBHOOK_URL 100 (Responded 200) alert_a init_p8))
        (throttle_key alert_a) = Some 100
   \<and> (''EARLY'', ''HARNESS_A'', ''HARNESS_A_DRIFT'') \<noteq> throttle_key alert_a
   \<and> last_sheet_send (snd (send_event_to_sheets GSHEETS_WEBHOOK_URL 100 (Responded 200) alert_a init_p8))
        (''EARLY'', ''HARNESS_A'', ''HARNESS_A_DRIFT'') = None"
proof -
  have first: "send_event_to_sheets GSHEETS_WEBHOOK_URL 100 (Responded 200) alert_a init_p8
     = (Logged, init_p8\<lparr>last_sheet_send := [throttle_key alert_a \<mapsto> 100]\<rparr>)"
    by (simp add: send_event_to_sheets_def GSHEETS_WEBHOOK_URL_def init_p8_def
        SHEET_MIN_INTERVAL_SEC_def Let_def)
  have gap: "(109::real) - 100 < SHEET_MIN_INTERVAL_SEC"
    by (simp add: SHEET_MIN_INTERVAL_SEC_def)
  have other: "(''EARLY'', ''HARNESS_A'', ''HARNESS_A_DRIFT'') \<noteq> throttle_key alert_a"
    by (simp add: throttle_key_def alert_a_def)
  have init: "last_sheet_send init_p8 (''EARLY'', ''HARNESS_A'', ''HARNESS_A_DRIFT'') = None"
    by (simp add: init_p8_def)
  show ?thesis
    using first gap other init
      C8_cooldown_after_delivery [of GSHEETS_WEBHOOK_URL 100 "Responded 200" alert_a init_p8
        "init_p8\<lparr>last_sheet_send := [throttle_key alert_a \<mapsto> 100]\<rparr>" alert_a 109
        "Responded 200" "(''EARLY'', ''HARNESS_A'', ''HARNESS_A_DRIFT'')"]
    by simp
qed

section \<open>Rule evaluation and the statistical state (Phase 8)\<close>

text \<open>
  Claim C4 says that rule evaluation leaves the EWMA and the sliding window unchanged.
  \<open>evaluate_rules\<close> calls \<open>update_drift\<close>, which writes both. Counterexample: with the
  three voltages at 14.0 V, no EWMA yet and an empty history, one evaluation sets the
  EWMA to 0 and the history to one sample.
\<close>

theorem C4_evaluate_rules_writes_statistics:
  "ewma_delta_a warm_p8 = None \<and> drift_history warm_p8 = []
   \<and> ewma_delta_a (snd (evaluate_rules 0 warm_p8)) = Some 0
   \<and> drift_history (snd (evaluate_rules 0 warm_p8)) = [(0, 0)]"
  by (simp add: demo_defs config_defs p8_defs)

text \<open>
  Claim C4, amended. \<open>evaluate_rules\<close> leaves the live values, the frame counters and the
  throttle table unchanged. When one of the three voltages is missing it returns no
  event and leaves the whole state unchanged. When all three are present its effect on
  the state is that of one call of \<open>update_drift\<close>: the EWMA is set (to the new delta, or
  blended with it), the new sample is appended to the history and the samples older than
  the window are evicted; the events it returns are the threshold events of the live
  values followed by the drift events of the updated EWMA and of the trend of the
  updated history.
\<close>

theorem C4_evaluate_rules_frame:
  "snd (evaluate_rules ts s) =
     (case latest_ECU_A s of None \<Rightarrow> s | Some a \<Rightarrow>
      case latest_ECU_B s of None \<Rightarrow> s | Some b \<Rightarrow>
      case latest_DCDC s of None \<Rightarrow> s | Some d \<Rightarrow> snd (update_drift ts a d s))
   \<and> latest_ECU_A (snd (evaluate_rules ts s)) = latest_ECU_A s
   \<and> latest_ECU_B (snd (evaluate_rules ts s)) = latest_ECU_B s
   \<and> latest_DCDC (snd (evaluate_rules ts s)) = latest_DCDC s
   \<and> frames_seen_window (snd (evaluate_rules ts s)) = frames_seen_window s
   \<and> frames_decoded_window (snd (evaluate_rules ts s)) = frames_decoded_window s
   \<and> last_sheet_send (snd (evaluate_rules ts s)) = last_sheet_send s
   \<and> (latest_ECU_A s = None \<or> latest_ECU_B s = None \<or> latest_DCDC s = None
       \<longrightarrow> evaluate_rules ts s = ([], s))
   \<and> (latest_ECU_A s = Some a \<and> latest_ECU_B s = Some b \<and> latest_DCDC s = Some d
       \<longrightarrow> snd (evaluate_rules ts s) = snd (update_drift ts a d s)
         \<and> ewma_delta_a (snd (evaluate_rules ts s))
             = Some (case ewma_delta_a s of
                       None \<Rightarrow> d - a
                     | Some e \<Rightarrow> EWMA_ALPHA_p8 * (d - a) + (1 - EWMA_ALPHA_p8) * e)
         \<and> drift_history (snd (evaluate_rules ts s))
             = filter (\<lambda>x. real_of_int ts / 1000 - DRIFT_WINDOW_SEC \<le> fst x) (drift_history s)
                 @ [(real_of_int ts / 1000, d - a)]
         \<and> fst (evaluate_rules ts s)
             = threshold_events a b d
                 @ drift_events a b d (ewma_delta_a (snd (evaluate_rules ts s)))
                     (trend_of (drift_history (snd (evaluate_rules ts s)))))"
proof (intro conjI impI)
  show "snd (evaluate_rules ts s) =
     (case latest_ECU_A s of None \<Rightarrow> s | Some a \<Rightarrow>
      case latest_ECU_B s of None \<Rightarrow> s | Some b \<Rightarrow>
      case latest_DCDC s of None \<Rightarrow> s | Some d \<Rightarrow> snd (update_drift ts a d s))"
    by (simp add: evaluate_rules_def Let_def split: option.splits)
  show "latest_ECU_A (snd (evaluate_rules ts s)) = latest_ECU_A s"
    by (simp add: evaluate_rules_def update_drift_def Let_def split: option.splits)
  show "latest_ECU_B (snd (evaluate_rules ts s)) = latest_ECU_B s"
    by (simp add: evaluate_rules_def update_drift_def Let_def split: option.splits)
  show "latest_DCDC (snd (evaluate_rules ts s)) = latest_DCDC s"
    by (simp add: evaluate_rules_def update_drift_def Let_def split: option.splits)
  show "frames_seen_window (snd (evaluate_rules ts s)) = frames_seen_window s"
    by (simp add: evaluate_rules_def update_drift_def Let_def split: option.splits)
  show "frames_decoded_window (snd (evaluate_rules ts s)) = frames_decoded_window s"
    by (simp add: evaluate_rules_def update_drift_def Let_def split: option.splits)
  show "last_sheet_send (snd (evaluate_rules ts s)) = last_sheet_send s"
    by (simp add: evaluate_rules_def update_drift_def Let_def split: option.splits)
  show "evaluate_rules ts s = ([], s)"
    if "latest_ECU_A s = None \<or> latest_ECU_B s = None \<or> latest_DCDC s = None"
    using that by (auto simp add: evaluate_rules_def split: option.splits)
next
  assume all: "latest_ECU_A s = Some a \<and> latest_ECU_B s = Some b \<and> latest_DCDC s = Some d"
  then have ev: "evaluate_rules ts s =
      (threshold_events a b d
         @ drift_events a b d (fst (fst (update_drift ts a d s))) (snd (fst (update_drift ts a d s))),
       snd (update_drift ts a d s))"
    by (simp add: evaluate_rules_def Let_def)
  show st: "snd (evaluate_rules ts s) = snd (update_drift ts a d s)"
    using ev by simp
  show "ewma_delta_a (snd (evaluate_rules ts s))
      = Some (case ewma_delta_a s of
                None \<Rightarrow> d - a
              | Some e \<Rightarrow> EWMA_ALPHA_p8 * (d - a) + (1 - EWMA_ALPHA_p8) * e)"
    unfolding st by (simp add: update_drift_def Let_def)
  show "drift_history (snd (evaluate_rules ts s))
      = filter (\<lambda>x. real_of_int ts / 1000 - DRIFT_WINDOW_SEC \<le> fst x) (drift_history s)
          @ [(real_of_int ts / 1000, d - a)]"
    unfolding st by (simp add: update_drift_def Let_def DRIFT_WINDOW_SEC_def case_prod_unfold)
  have "fst (fst (update_drift ts a d s)) = ewma_delta_a (snd (update_drift ts a d s))"
    and "snd (fst (update_drift ts a d s)) = trend_of (drift_history (snd (update_drift ts a d s)))"
    by (simp_all add: update_drift_def Let_def)
  then show "fst (evaluate_rules ts s)
      = threshold_events a b d
          @ drift_events a b d (ewma_delta_a (snd (evaluate_rules ts s)))
              (trend_of (drift_history (snd (evaluate_rules ts s))))"
    unfolding st using ev by simp
qed

theorem C4_evaluate_rules_frame_witness:
  "snd (evaluate_rules 0 warm_p8) = snd (update_drift 0 14 14 warm_p8)
   \<and> snd (evaluate_rules 0 init_p8) = init_p8
   \<and> latest_DCDC (snd (evaluate_rules 0 warm_p8)) = Some 14
   \<and> latest_ECU_A init_p8 = None
   \<and> evaluate_rules 0 init_p8 = ([], init_p8)
   \<and> latest_ECU_A warm_p8 = Some 14 \<and> latest_ECU_B warm_p8 = Some 14
   \<and> latest_DCDC warm_p8 = Some 14
   \<and> ewma_delta_a (snd (evaluate_rules 0 warm_p8)) = Some 0
   \<and> drift_history (snd (evaluate_rules 0 warm_p8)) = [(0, 0)]
   \<and> fst (evaluate_rules 0 warm_p8) = []"
proof -
  have w: "latest_ECU_A warm_p8 = Some 14" "latest_ECU_B warm_p8 = Some 14"
    "latest_DCDC warm_p8 = Some 14"
    by (simp_all add: warm_p8_def)
  have w0: "ewma_delta_a warm_p8 = None" "drift_history warm_p8 = []"
    by (simp_all add: warm_p8_def init_p8_def)
  have i: "latest_ECU_A init_p8 = None"
    by (simp add: init_p8_def)
  have a: "snd (evaluate_rules 0 warm_p8) = snd (update_drift 0 14 14 warm_p8)"
    and d: "latest_DCDC (snd (evaluate_rules 0 warm_p8)) = Some 14"
    using C4_evaluate_rules_frame [of 0 warm_p8] unfolding w option.case by blast+
  have b: "snd (evaluate_rules 0 init_p8) = init_p8"
    using C4_evaluate_rules_frame [of 0 init_p8] unfolding i option.case by blast
  have c: "evaluate_rules 0 init_p8 = ([], init_p8)"
    using C4_evaluate_rules_frame [of 0 init_p8] i by blast
  have e0: "ewma_delta_a (snd (evaluate_rules 0 warm_p8))
          = Some (case ewma_delta_a warm_p8 of
                    None \<Rightarrow> 14 - 14
                  | Some e \<Rightarrow> EWMA_ALPHA_p8 * (14 - 14) + (1 - EWMA_ALPHA_p8) * e)"
    and h0: "drift_history (snd (evaluate_rules 0 warm_p8))
          = filter (\<lambda>x. real_of_int 0 / 1000 - DRIFT_WINDOW_SEC \<le> fst x) (drift_history warm_p8)
              @ [(real_of_int 0 / 1000, 14 - 14)]"
    and f: "fst (evaluate_rules 0 warm_p8)
          = threshold_events 14 14 14
              @ drift_events 14 14 14 (ewma_delta_a (snd (evaluate_rules 0 warm_p8)))
                  (trend_of (drift_history (snd (evaluate_rules 0 warm_p8))))"
    using C4_evaluate_rules_frame [of 0 warm_p8 14 14 14] w by blast+
  have e: "ewma_delta_a (snd (evaluate_rules 0 warm_p8)) = Some 0"
    unfolding e0 w0 by simp
  have h: "drift_history (snd (evaluate_rules 0 warm_p8)) = [(0, 0)]"
    unfolding h0 w0 by simp
  have "fst (evaluate_rules 0 warm_p8) = []"
    unfolding f e h
    by (simp add: threshold_events_def drift_events_def trend_of_def config_defs Let_def)
  then show ?thesis
    using a b d i c w e h by blast
qed

section \<open>The drift rule and the reference band\<close>

text \<open>
  In Phase 7 the drift rules read the reference voltage of the newest window entry, which
  is the current one, and fire only when it is within the band.
\<close>

lemma drop_old_snoc:
  "c \<le> fst x \<Longrightarrow> drop_old c (w @ [x]) \<noteq> [] \<and> last (drop_old c (w @ [x])) = x"
  by (induction w) auto

lemma run_statistical_checks_unstable:
  "snd (snd (snd (last w))) = d \<Longrightarrow> \<not> \<bar>d - DCDC_NOMINAL_V\<bar> \<le> DCDC_TOLERANCE \<Longrightarrow>
   run_statistical_checks w eA eB = []"
  by (simp add: run_statistical_checks_def Let_def case_prod_unfold split: option.splits)

lemma drift_gated_p7:
  assumes "update_stats_and_rules t s = Inr r" and "V_D s = Some d"
    and "\<not> \<bar>d - DCDC_NOMINAL_V\<bar> \<le> DCDC_TOLERANCE"
  shows "filter is_early (fst r) = []"
proof -
  have l: "snd (snd (snd (last (drop_old (t - WINDOW_SECONDS) (window s @ [(t, x, y, d)]))))) = d"
    for x y
    using drop_old_snoc [of "t - WINDOW_SECONDS" "(t, x, y, d)" "window s"]
    by (simp add: WINDOW_SECONDS_def)
  have alerts: "filter is_early (run_rule_based_harness_checks d x y) = []" for x y
    by (simp add: run_rule_based_harness_checks_def Let_def)
  show ?thesis
    using assms(1,2) run_statistical_checks_unstable [OF l assms(3)] alerts
    by (auto simp add: update_stats_and_rules_def Let_def split: option.splits)
qed

text \<open>
  Claim C3 (every drift classification is gated on the reference being within the band)
  is not met by Phase 8, whose drift rule has no band test. The frames DCDC = 15.0 V,
  ECU\_B = 14.0 V, ECU\_A = 14.0 V at time 0 lead to the state shown; the reference 15.0 V
  is above the band [13.5, 14.7]; the frame ECU\_A = 13.0 V one second later produces
  the early warning HARNESS\_A\_DRIFT, which is sent.
\<close>

theorem C3_drift_fires_outside_band:
  "run_p8 demo_globals_p8 GSHEETS_WEBHOOK_URL
     [(demo_frame 0 0x113 150, net_ok 100), (demo_frame 0 0x112 140, net_ok 100),
      (demo_frame 0 0x111 140, net_ok 100)] init_p8
     = Inr \<lparr>latest_ECU_A = Some 14, latest_ECU_B = Some 14, latest_DCDC = Some 15,
             frames_seen_window = 3, frames_decoded_window = 3,
             ewma_delta_a = Some 1, drift_history = [(0, 1)], last_sheet_send = Map.empty\<rparr>
   \<and> \<not> (DCDC_OK_MIN_V \<le> 15 \<and> 15 \<le> DCDC_OK_MAX_V)
   \<and> can_frame_v0_p8 demo_globals_p8 GSHEETS_WEBHOOK_URL (net_ok 100) (demo_frame 1000 0x111 130)
       \<lparr>latest_ECU_A = Some 14, latest_ECU_B = Some 14, latest_DCDC = Some 15,
         frames_seen_window = 3, frames_decoded_window = 3,
         ewma_delta_a = Some 1, drift_history = [(0, 1)], last_sheet_send = Map.empty\<rparr>
     = Inr ([(\<lparr>level = ''EARLY'', harness = ''HARNESS_A'', rule_name = ''HARNESS_A_DRIFT'',
               message = Drift_text (6 / 5) 1, ecu_a_v = 13, ecu_b_v = 14, dcdc_v = 15\<rparr>, Logged)],
            \<lparr>latest_ECU_A = Some 13, latest_ECU_B = Some 14, latest_DCDC = Some 15,
              frames_seen_window = 4, frames_decoded_window = 4,
              ewma_delta_a = Some (6 / 5), drift_history = [(0, 1), (1, 2)],
              last_sheet_send = [(''EARLY'', ''HARNESS_A'', ''HARNESS_A_DRIFT'') \<mapsto> 100]\<rparr>)"
  by (simp add: demo_defs config_defs p8_defs)

section \<open>Trend\<close>

lemma trend_of_slope:
  "2 \<le> length h \<Longrightarrow> 0 < fst (last h) - fst (hd h) \<Longrightarrow>
   trend_of h = Some ((snd (last h) - snd (hd h)) / (fst (last h) - fst (hd h)))"
  by (simp add: trend_of_def Let_def case_prod_unfold)

lemma trend_of_absent:
  "length h < 2 \<or> fst (last h) - fst (hd h) = 0 \<Longrightarrow> trend_of h = None"
  by (auto simp add: trend_of_def Let_def case_prod_unfold)

lemma update_drift_trend:
  "snd (fst (update_drift ts a d s)) = trend_of (drift_history (snd (update_drift ts a d s)))"
  by (simp add: update_drift_def Let_def)

lemma drift_events_no_trend: "drift_events a b d e None = []"
  by (simp add: drift_events_def split: option.splits)

lemma threshold_events_not_early:
  "filter (\<lambda>e. level e = ''EARLY'') (threshold_events a b d) = []"
  by (simp add: threshold_events_def Let_def)

text \<open>
  Claim C5. Trend is the endpoint slope of the window. Phase 8: with \<open>h\<close> the history
  after the append and the eviction, if \<open>h\<close> holds at least two samples and the time from
  the oldest to the newest is positive, the trend \<open>update_drift\<close> returns is (newest
  value - oldest value) / (newest time - oldest time); if \<open>h\<close> holds fewer than two
  samples or that time is zero, the trend is \<open>None\<close> and \<open>evaluate_rules\<close> returns no
  early warning. Phase 7: with fewer than two window entries or zero elapsed time
  \<open>run_statistical_checks\<close> prints nothing; otherwise the combined drift warning is
  printed exactly when the reference is stable, both EWMAs exceed the floor and both
  endpoint slopes exceed the velocity floor.
\<close>

theorem C5_trend_endpoint_slope:
  "(let r = update_drift ts a d s; h = drift_history (snd r); dt = fst (last h) - fst (hd h) in
      (2 \<le> length h \<and> 0 < dt \<longrightarrow> snd (fst r) = Some ((snd (last h) - snd (hd h)) / dt))
    \<and> (length h < 2 \<or> dt = 0 \<longrightarrow> snd (fst r) = None))
   \<and> (let r = evaluate_rules ts s; h = drift_history (snd r) in
        length h < 2 \<or> fst (last h) - fst (hd h) = 0
        \<longrightarrow> filter (\<lambda>e. level e = ''EARLY'') (fst r) = [])
   \<and> (length w < 2 \<or> fst (last w) - fst (hd w) = 0 \<longrightarrow> run_statistical_checks w eA eB = [])
   \<and> (2 \<le> length w \<and> 0 < fst (last w) - fst (hd w) \<longrightarrow>
        (EARLY ''HARNESS_C_DRIFT'' \<in> set (run_statistical_checks w (Some ea) (Some eb))
         \<longleftrightarrow> \<bar>snd (snd (snd (last w))) - DCDC_NOMINAL_V\<bar> \<le> DCDC_TOLERANCE
             \<and> ea > DRIFT_MIN_V \<and> eb > DRIFT_MIN_V
             \<and> (fst (snd (last w)) - fst (snd (hd w))) / (fst (last w) - fst (hd w)) > TREND_MIN_VPS
             \<and> (fst (snd (snd (last w))) - fst (snd (snd (hd w)))) / (fst (last w) - fst (hd w))
                 > TREND_MIN_VPS))"
proof (intro conjI)
  show "let r = update_drift ts a d s; h = drift_history (snd r); dt = fst (last h) - fst (hd h) in
      (2 \<le> length h \<and> 0 < dt \<longrightarrow> snd (fst r) = Some ((snd (last h) - snd (hd h)) / dt))
    \<and> (length h < 2 \<or> dt = 0 \<longrightarrow> snd (fst r) = None)"
    using trend_of_slope [of "drift_history (snd (update_drift ts a d s))"]
      trend_of_absent [of "drift_history (snd (update_drift ts a d s))"]
    by (simp add: Let_def update_drift_trend)
  show "let r = evaluate_rules ts s; h = drift_history (snd r) in
        length h < 2 \<or> fst (last h) - fst (hd h) = 0
        \<longrightarrow> filter (\<lambda>e. level e = ''EARLY'') (fst r) = []"
  proof -
    have "filter (\<lambda>e. level e = ''EARLY'') (fst (evaluate_rules ts s)) = []"
      if "trend_of (drift_history (snd (evaluate_rules ts s))) = None"
      using that
      by (simp add: evaluate_rules_def Let_def update_drift_trend drift_events_no_trend
          threshold_events_not_early split: option.splits)
    then show ?thesis
      using trend_of_absent [of "drift_history (snd (evaluate_rules ts s))"]
      by (simp add: Let_def)
  qed
  show "length w < 2 \<or> fst (last w) - fst (hd w) = 0 \<longrightarrow> run_statistical_checks w eA eB = []"
    by (auto simp add: run_statistical_checks_def Let_def case_prod_unfold)
  show "2 \<le> length w \<and> 0 < fst (last w) - fst (hd w) \<longrightarrow>
        (EARLY ''HARNESS_C_DRIFT'' \<in> set (run_statistical_checks w (Some ea) (Some eb))
         \<longleftrightarrow> \<bar>snd (snd (snd (last w))) - DCDC_NOMINAL_V\<bar> \<le> DCDC_TOLERANCE
             \<and> ea > DRIFT_MIN_V \<and> eb > DRIFT_MIN_V
             \<and> (fst (snd (last w)) - fst (snd (hd w))) / (fst (last w) - fst (hd w)) > TREND_MIN_VPS
             \<and> (fst (snd (snd (last w))) - fst (snd (snd (hd w)))) / (fst (last w) - fst (hd w))
                 > TREND_MIN_VPS)"
    by (simp add: run_statistical_checks_def Let_def case_prod_unfold)
qed

theorem C5_trend_endpoint_slope_witness:
  "snd (fst (update_drift 1000 13 15 (init_p8\<lparr>ewma_delta_a := Some 1, drift_history := [(0, 1)]\<rparr>)))
     = Some 1
   \<and> snd (fst (update_drift 0 14 15 init_p8)) = None
   \<and> filter (\<lambda>e. level e = ''EARLY'') (fst (evaluate_rules 0 warm_p8)) = []
   \<and> run_statistical_checks [(0, 0, 0, 14)] (Some 1) (Some 1) = []
   \<and> EARLY ''HARNESS_C_DRIFT''
       \<in> set (run_statistical_checks [(0, 0, 0, 14), (10, 1, 1, 14)] (Some 1) (Some 1))"
proof -
  let ?s = "init_p8\<lparr>ewma_delta_a := Some 1, drift_history := [(0, 1)]\<rparr>"
  have h1: "drift_history (snd (update_drift 1000 13 15 ?s)) = [(0, 1), (1, 2)]"
    by (simp add: update_drift_def Let_def DRIFT_WINDOW_SEC_def)
  have h2: "drift_history (snd (update_drift 0 14 15 init_p8)) = [(0, 1)]"
    by (simp add: update_drift_def Let_def DRIFT_WINDOW_SEC_def init_p8_def)
  have h3: "drift_history (snd (evaluate_rules 0 warm_p8)) = [(0, 0)]"
    by (simp add: evaluate_rules_def update_drift_def Let_def DRIFT_WINDOW_SEC_def
        init_p8_def warm_p8_def)
  have c1: "snd (fst (update_drift 1000 13 15 ?s)) = Some 1"
    using C5_trend_endpoint_slope [of 1000 13 15 ?s] by (simp add: Let_def h1)
  have c2: "snd (fst (update_drift 0 14 15 init_p8)) = None"
    using C5_trend_endpoint_slope [of 0 14 15 init_p8] by (simp add: Let_def h2)
  have c3: "filter (\<lambda>e. level e = ''EARLY'') (fst (evaluate_rules 0 warm_p8)) = []"
    using C5_trend_endpoint_slope [of 0 a d warm_p8] by (simp add: Let_def h3)
  have c4: "run_statistical_checks [(0, 0, 0, 14)] (Some 1) (Some 1) = []"
    using C5_trend_endpoint_slope [of ts a d s "[(0, 0, 0, 14)]" "Some 1" "Some 1"] by simp
  have c5: "EARLY ''HARNESS_C_DRIFT''
       \<in> set (run_statistical_checks [(0, 0, 0, 14), (10, 1, 1, 14)] (Some 1) (Some 1))"
    using C5_trend_endpoint_slope [of ts a d s "[(0, 0, 0, 14), (10, 1, 1, 14)]" eA eB 1 1]
    by (simp add: config_defs)
  show ?thesis
    using c1 c2 c3 c4 c5 by blast
qed

section \<open>Freshness of the sliding window\<close>




















section \<open>Frames that are not decoded\<close>

text \<open>
  Claim C10. For a frame whose eight payload slots hold bytes (0..255): if its
  identifier is unknown to the catalog, or the decoder raises on its payload, the
  callback does not raise, produces no event, and leaves every part of the state except
  the frames-seen counter unchanged (live values, EWMA, window, throttle table, and the
  frames-decoded counter). Phase 8 and Phase 7; Phase 7 prints its decode error line.
\<close>

theorem C10_undecoded_frame_contained:
  "list_all (\<lambda>b. 0 \<le> b \<and> b < 256) (payload f) \<Longrightarrow>
   (id_to_msg g8 (can_id f) = None
      \<or> (\<exists>m. id_to_msg g8 (can_id f) = Some m \<and> decode (db g8) m (payload f) = None)
     \<longrightarrow> can_frame_v0_p8 g8 url net f s8
           = Inr ([], s8\<lparr>frames_seen_window := frames_seen_window s8 + 1\<rparr>))
   \<and> (MESSAGE_BY_ID g7 (can_id f) = None
      \<or> (\<exists>m. MESSAGE_BY_ID g7 (can_id f) = Some m \<and> decode (dbc_p7 g7) m (payload f) = None)
     \<longrightarrow> (\<exists>out. can_frame_v0_p7 g7 t f s7 = Inr (out, s7\<lparr>frames_seen := frames_seen s7 + 1\<rparr>)
               \<and> filter is_event out = []))"
  by (auto simp add: can_frame_v0_p8_def can_frame_v0_p7_def bytes_def Let_def)

theorem C10_undecoded_frame_contained_witness:
  "list_all (\<lambda>b. 0 \<le> b \<and> b < 256) (payload (demo_frame 0 0x200 140))
   \<and> id_to_msg demo_globals_p8 (can_id (demo_frame 0 0x200 140)) = None
   \<and> can_frame_v0_p8 demo_globals_p8 GSHEETS_WEBHOOK_URL (net_ok 100) (demo_frame 0 0x200 140) warm_p8
       = Inr ([], warm_p8\<lparr>frames_seen_window := frames_seen_window warm_p8 + 1\<rparr>)
   \<and> id_to_msg (demo_globals_p8\<lparr>db := demo_dbc\<lparr>decode := \<lambda>m data. None\<rparr>\<rparr>)
        (can_id (demo_frame 0 0x111 140)) = Some \<lparr>name = ''ECU_A_STATUS'', frame_id = 0x111\<rparr>
   \<and> can_frame_v0_p8 (demo_globals_p8\<lparr>db := demo_dbc\<lparr>decode := \<lambda>m data. None\<rparr>\<rparr>)
        GSHEETS_WEBHOOK_URL (net_ok 100) (demo_frame 0 0x111 140) warm_p8
       = Inr ([], warm_p8\<lparr>frames_seen_window := frames_seen_window warm_p8 + 1\<rparr>)
   \<and> MESSAGE_BY_ID demo_globals_p7 (can_id (demo_frame 0 0x200 140)) = None
   \<and> can_frame_v0_p7 demo_globals_p7 5 (demo_frame 0 0x200 140) init_p7
       = Inr ([], init_p7\<lparr>frames_seen := frames_seen init_p7 + 1\<rparr>)"
proof -
  let ?f = "demo_frame 0 0x200 140"
  let ?fa = "demo_frame 0 0x111 140"
  let ?g = "demo_globals_p8\<lparr>db := demo_dbc\<lparr>decode := \<lambda>m data. None\<rparr>\<rparr>"
  have b: "list_all (\<lambda>b. 0 \<le> b \<and> b < 256) (payload ?f)"
    by (simp add: payload_def demo_frame_def)
  have ba: "list_all (\<lambda>b. 0 \<le> b \<and> b < 256) (payload ?fa)"
    by (simp add: payload_def demo_frame_def)
  have u8: "id_to_msg demo_globals_p8 (can_id ?f) = None"
    by (simp add: demo_globals_p8_def demo_frame_def)
  have u7: "MESSAGE_BY_ID demo_globals_p7 (can_id ?f) = None"
    by (simp add: demo_globals_p7_def demo_frame_def)
  have k: "id_to_msg ?g (can_id ?fa) = Some \<lparr>name = ''ECU_A_STATUS'', frame_id = 0x111\<rparr>"
    by (simp add: demo_globals_p8_def demo_frame_def)
  have dn: "decode (db ?g) \<lparr>name = ''ECU_A_STATUS'', frame_id = 0x111\<rparr> (payload ?fa) = None"
    by (simp add: demo_globals_p8_def)
  have c1: "can_frame_v0_p8 demo_globals_p8 GSHEETS_WEBHOOK_URL (net_ok 100) ?f warm_p8
       = Inr ([], warm_p8\<lparr>frames_seen_window := frames_seen_window warm_p8 + 1\<rparr>)"
    using C10_undecoded_frame_contained [OF b, of demo_globals_p8] u8 by blast
  have c2: "can_frame_v0_p8 ?g GSHEETS_WEBHOOK_URL (net_ok 100) ?fa warm_p8
       = Inr ([], warm_p8\<lparr>frames_seen_window := frames_seen_window warm_p8 + 1\<rparr>)"
    using C10_undecoded_frame_contained [OF ba, of ?g] k dn by blast
  have "\<exists>out. can_frame_v0_p7 demo_globals_p7 5 ?f init_p7
          = Inr (out, init_p7\<lparr>frames_seen := frames_seen init_p7 + 1\<rparr>) \<and> filter is_event out = []"
    using C10_undecoded_frame_contained [OF b, of g8 url net s8 demo_globals_p7] u7 by blast
  moreover have "fst (projr (can_frame_v0_p7 demo_globals_p7 5 ?f init_p7)) = []"
    by (simp add: demo_defs p7_defs)
  ultimately have c3: "can_frame_v0_p7 demo_globals_p7 5 ?f init_p7
       = Inr ([], init_p7\<lparr>frames_seen := frames_seen init_p7 + 1\<rparr>)"
    by auto
  show ?thesis
    using b u8 c1 k c2 u7 c3 by blast
qed

section \<open>The EWMA\<close>

subsection \<open>The smoothing factors as doubles\<close>

lemma alpha_p8_f64: "fl64 EWMA_ALPHA_p8 = Finite (3602879701896397 / 18014398509481984)"
  by (simp add: EWMA_ALPHA_p8_def f64_defs)

lemma alpha_p7_f64: "fl64 EWMA_ALPHA_p7 = Finite (3602879701896397 / 36028797018963968)"
  by (simp add: EWMA_ALPHA_p7_def f64_defs)

lemma one_minus_alpha_p8:
  "fop (-) (Finite 1) (Finite (3602879701896397 / 18014398509481984))
     = Finite (7205759403792794 / 2 ^ 53)"
  by (simp add: f64_defs)

lemma one_minus_alpha_p7:
  "fop (-) (Finite 1) (Finite (3602879701896397 / 36028797018963968))
     = Finite (8106479329266893 / 2 ^ 53)"
  by (simp add: f64_defs)

subsection \<open>The rounding error of one operation\<close>

lemma pow2_powi: "pow2 k = 2 powi k"
  by (simp add: pow2_def power_int_def field_simps)

lemma rne_err: "\<bar>of_int (rne y) - y\<bar> \<le> 1 / 2"
proof -
  have "of_int \<lfloor>y\<rfloor> \<le> y" "y < of_int \<lfloor>y\<rfloor> + 1" by linarith+
  then show ?thesis
    by (auto simp add: rne_def Let_def)
qed

lemma bexp_lower: "1 \<le> x * 2 ^ n \<Longrightarrow> 2 powi (bexp n x) \<le> x"
proof (induction n arbitrary: x)
  case 0
  then show ?case by simp
next
  case (Suc n)
  show ?case
  proof (cases "2 \<le> x")
    case True
    have "1 \<le> x / 2 * 2 ^ n"
    proof -
      have "(1::real) \<le> 2 ^ n" by simp
      moreover have "1 \<le> x / 2" using True by simp
      ultimately show ?thesis by (metis mult_mono one_le_numeral mult_1 zero_le_one zero_le_numeral order_trans)
    qed
    from Suc.IH [OF this] have "2 powi (bexp n (x / 2)) \<le> x / 2" .
    then show ?thesis using True by (simp add: power_int_add)
  next
    case False
    show ?thesis
    proof (cases "x < 1")
      case True
      have "1 \<le> x * 2 * 2 ^ n" using Suc.prems by (simp add: mult.assoc)
      from Suc.IH [OF this] have "2 powi (bexp n (x * 2)) \<le> x * 2" .
      then show ?thesis using True False by (simp add: power_int_diff)
    next
      case False
      then show ?thesis using \<open>\<not> 2 \<le> x\<close> by simp
    qed
  qed
qed

lemma bexp_upper: "x < 2 ^ (n + 1) \<Longrightarrow> x < 2 powi (bexp n x + 1)"
proof (induction n arbitrary: x)
  case 0
  then show ?case by simp
next
  case (Suc n)
  show ?case
  proof (cases "2 \<le> x")
    case True
    have "x / 2 < 2 ^ (n + 1)" using Suc.prems by simp
    from Suc.IH [OF this] have "x / 2 < 2 powi (bexp n (x / 2) + 1)" .
    then show ?thesis using True by (simp add: power_int_add)
  next
    case False
    show ?thesis
    proof (cases "x < 1")
      case True
      have "(2::real) \<le> 2 ^ (n + 1)" by simp
      then have "x * 2 < 2 ^ (n + 1)" using True by linarith
      from Suc.IH [OF this] have "x * 2 < 2 powi (bexp n (x * 2) + 1)" .
      then show ?thesis using True False by (simp add: power_int_add)
    next
      case False
      then show ?thesis using \<open>\<not> 2 \<le> x\<close> by simp
    qed
  qed
qed

lemma powi_le_D: "(2::real) powi a \<le> 2 powi b \<Longrightarrow> a \<le> b"
  by (rule ccontr) (use power_int_strict_increasing [of b a "2::real"] in auto)

lemma powi_less_D: "(2::real) powi a < 2 powi b \<Longrightarrow> a < b"
  by (rule ccontr) (use power_int_increasing [of b a "2::real"] in auto)

lemma fl64_rel:
  assumes lo: "2 powi (- 1022) \<le> \<bar>x\<bar>" and hi: "\<bar>x\<bar> \<le> 2 powi 1000"
  shows "\<exists>y. fl64 x = Finite y \<and> \<bar>y - x\<bar> \<le> \<bar>x\<bar> / 2 ^ 53"
proof -
  define e where "e = bexp 2200 \<bar>x\<bar>"
  define u where "u = (2::real) powi (e - 52)"
  define y where "y = of_int (rne (x / u)) * u"
  have upos: "0 < u" by (simp add: u_def)
  have "(1::real) \<le> 2 powi (- 1022) * 2 powi 2200"
    by (simp add: power_int_add [symmetric])
  also have "\<dots> \<le> \<bar>x\<bar> * 2 powi 2200"
    using lo by (intro mult_right_mono) auto
  finally have "1 \<le> \<bar>x\<bar> * 2 ^ 2200" by simp
  from bexp_lower [OF this] have l: "2 powi e \<le> \<bar>x\<bar>" by (simp add: e_def)
  have "\<bar>x\<bar> < 2 powi 2201"
    using hi power_int_strict_increasing [of 1000 2201 "2::real"] by linarith
  then have "\<bar>x\<bar> < 2 ^ (2200 + 1)" by simp
  from bexp_upper [OF this] have up: "\<bar>x\<bar> < 2 powi (e + 1)" by (simp add: e_def)
  have e_ge: "- 1022 \<le> e"
    using powi_less_D [of "- 1022" "e + 1"] lo up by linarith
  have e_le: "e \<le> 1000"
    using powi_le_D [of e 1000] l hi by linarith
  have half: "u / 2 = 2 powi e / 2 ^ 53"
    by (simp add: u_def power_int_diff)
  have "y - x = (of_int (rne (x / u)) - x / u) * u"
    using upos by (simp add: y_def field_simps)
  then have "\<bar>y - x\<bar> = \<bar>of_int (rne (x / u)) - x / u\<bar> * u"
    using upos by (simp add: abs_mult)
  also have "\<dots> \<le> 1 / 2 * u"
    using rne_err [of "x / u"] upos by (intro mult_right_mono) auto
  also have "\<dots> = 2 powi e / 2 ^ 53" using half by simp
  also have "\<dots> \<le> \<bar>x\<bar> / 2 ^ 53" using l by (simp add: divide_right_mono)
  finally have err: "\<bar>y - x\<bar> \<le> \<bar>x\<bar> / 2 ^ 53" .
  have "\<bar>x\<bar> / 2 ^ 53 \<le> \<bar>x\<bar>" by (simp add: divide_le_eq)
  then have "\<bar>y\<bar> \<le> 2 * \<bar>x\<bar>" using err by linarith
  also have "\<dots> \<le> 2 * 2 powi 1000" using hi by simp
  also have "\<dots> = 2 powi 1001" by (simp add: power_int_add [of 2 1 1000, simplified])
  also have "\<dots> < 2 powi 1024" by (intro power_int_strict_increasing) auto
  finally have fin: "\<bar>y\<bar> < pow2 1024" by (simp add: pow2_powi)
  have "max (bexp 2200 \<bar>x\<bar>) (- 1022) = e" using e_ge by (simp add: e_def)
  then have "fl64 x = Finite y"
    using fin unfolding fl64_def Let_def by (simp only: pow2_powi y_def u_def if_True)
  then show ?thesis using err by blast
qed

subsection \<open>The rounding error of the blend of equal values\<close>

lemma f64_range_facts:
  assumes lo: "2 powi (- 1000) \<le> w" and hi: "w \<le> 2 powi 998"
  shows "(2::real) powi (- 1022) \<le> w / 32" and "w * 4 \<le> 2 powi 1000"
proof -
  have "(2::real) powi (- 1000) = 2 powi (- 1005) * 2 powi 5"
    by (simp add: power_int_add [symmetric])
  then have "(2::real) powi (- 1000) / 32 = 2 powi (- 1005)" by simp
  moreover have "(2::real) powi (- 1000) / 32 \<le> w / 32"
    using lo by (rule divide_right_mono) simp
  moreover have "(2::real) powi (- 1022) \<le> 2 powi (- 1005)"
    by (intro power_int_increasing) auto
  ultimately show "(2::real) powi (- 1022) \<le> w / 32" by (simp only:)
  have "(2::real) powi 1000 = 2 powi 998 * 2 powi 2"
    by (simp add: power_int_add [symmetric])
  then have "(2::real) powi 1000 = 2 powi 998 * 4" by simp
  moreover have "w * 4 \<le> 2 powi 998 * 4"
    using hi by (rule mult_right_mono) simp
  ultimately show "w * 4 \<le> 2 powi 1000" by (simp only:)
qed

lemma blend_f64_bound:
  assumes A: "1 / 16 \<le> A" "A \<le> 1" and B: "1 / 16 \<le> B" "B \<le> 1"
    and AB: "\<bar>A + B - 1\<bar> \<le> 1 / 2 ^ 53"
    and lo: "2 powi (- 1000) \<le> \<bar>v\<bar>" and hi: "\<bar>v\<bar> \<le> 2 powi 998"
  shows "\<exists>r. fop (+) (fop (*) (Finite A) (Finite v)) (fop (*) (Finite B) (Finite v)) = Finite r
            \<and> \<bar>r - v\<bar> \<le> \<bar>v\<bar> / 2 ^ 51"
proof -
  define w where "w = \<bar>v\<bar>"
  define L where "L = (2::real) powi (- 1022)"
  define H where "H = (2::real) powi 1000"
  have rel: "\<exists>y. fl64 x = Finite y \<and> \<bar>y - x\<bar> \<le> \<bar>x\<bar> / 2 ^ 53" if "L \<le> \<bar>x\<bar>" "\<bar>x\<bar> \<le> H" for x
    using fl64_rel [of x] that unfolding L_def H_def by blast
  have w0: "0 \<le> w" by (simp add: w_def)
  have wlo: "L \<le> w / 32" and whi: "w * 4 \<le> H"
    using f64_range_facts [of w] lo hi unfolding L_def H_def w_def by blast+
  \<comment> \<open>first product\<close>
  have a1: "\<bar>A * v\<bar> = A * w" using A by (simp add: abs_mult w_def)
  have Aw: "w / 16 \<le> A * w" "A * w \<le> w"
    using A w0 mult_right_mono [of "1 / 16" A w] mult_right_mono [of A 1 w] by simp_all
  have "L \<le> \<bar>A * v\<bar>" "\<bar>A * v\<bar> \<le> H"
    using Aw wlo whi w0 a1 by linarith+
  from rel [OF this] obtain p where p: "fl64 (A * v) = Finite p"
    and pe: "\<bar>p - A * v\<bar> \<le> A * w / 2 ^ 53"
    using a1 by auto
  \<comment> \<open>second product\<close>
  have b1: "\<bar>B * v\<bar> = B * w" using B by (simp add: abs_mult w_def)
  have Bw: "w / 16 \<le> B * w" "B * w \<le> w"
    using B w0 mult_right_mono [of "1 / 16" B w] mult_right_mono [of B 1 w] by simp_all
  have "L \<le> \<bar>B * v\<bar>" "\<bar>B * v\<bar> \<le> H"
    using Bw wlo whi w0 b1 by linarith+
  from rel [OF this] obtain q where q: "fl64 (B * v) = Finite q"
    and qe: "\<bar>q - B * v\<bar> \<le> B * w / 2 ^ 53"
    using b1 by auto
  \<comment> \<open>the sum\<close>
  define sw where "sw = (A + B) * w"
  have sw_eq: "sw = A * w + B * w" by (simp add: sw_def algebra_simps)
  have abs_s: "\<bar>(A + B) * v\<bar> = sw" using A B by (simp add: abs_mult w_def sw_def)
  have se: "\<bar>(p + q) - (A + B) * v\<bar> \<le> sw / 2 ^ 53"
  proof -
    have "(p + q) - (A + B) * v = (p - A * v) + (q - B * v)" by (simp add: algebra_simps)
    then have "\<bar>(p + q) - (A + B) * v\<bar> \<le> \<bar>p - A * v\<bar> + \<bar>q - B * v\<bar>" by simp
    also have "\<dots> \<le> A * w / 2 ^ 53 + B * w / 2 ^ 53" using pe qe by linarith
    also have "\<dots> = sw / 2 ^ 53" by (simp add: sw_eq add_divide_distrib)
    finally show ?thesis .
  qed
  have sw_hi: "sw \<le> 2 * w" using Aw Bw sw_eq by linarith
  have sw_lo: "w / 16 \<le> sw" using Aw Bw sw_eq w0 by linarith
  have sw0: "0 \<le> sw" using sw_lo w0 by linarith
  have eps: "sw / 2 ^ 53 \<le> sw / 2" using sw0 by (simp add: field_simps)
  have x3_lo: "sw / 2 \<le> \<bar>p + q\<bar>" and x3_hi: "\<bar>p + q\<bar> \<le> sw + sw / 2 ^ 53"
    using se abs_s eps by linarith+
  have "L \<le> \<bar>p + q\<bar>" "\<bar>p + q\<bar> \<le> H"
    using x3_lo x3_hi sw_lo sw_hi eps wlo whi w0 by linarith+
  from rel [OF this] obtain r where r: "fl64 (p + q) = Finite r"
    and re: "\<bar>r - (p + q)\<bar> \<le> \<bar>p + q\<bar> / 2 ^ 53"
    by auto
  \<comment> \<open>the total\<close>
  have ab: "\<bar>(A + B) * v - v\<bar> \<le> w / 2 ^ 53"
  proof -
    have "(A + B) * v - v = (A + B - 1) * v" by (simp add: algebra_simps)
    then have "\<bar>(A + B) * v - v\<bar> = \<bar>A + B - 1\<bar> * w" by (simp add: abs_mult w_def)
    also have "\<dots> \<le> 1 / 2 ^ 53 * w" using AB w0 by (intro mult_right_mono) auto
    finally show ?thesis by simp
  qed
  have t1: "\<bar>p + q\<bar> / 2 ^ 53 \<le> (sw + sw / 2 ^ 53) / 2 ^ 53"
    using x3_hi by (simp add: divide_right_mono)
  have "\<bar>r - v\<bar> \<le> \<bar>r - (p + q)\<bar> + \<bar>(p + q) - (A + B) * v\<bar> + \<bar>(A + B) * v - v\<bar>"
    by linarith
  also have "\<dots> \<le> (sw + sw / 2 ^ 53) / 2 ^ 53 + sw / 2 ^ 53 + w / 2 ^ 53"
    using re t1 se ab by linarith
  also have "\<dots> \<le> w / 2 ^ 51"
  proof -
    have "(1::real) / 2 ^ 53 \<le> 1 / 4" by simp
    then have "A + B \<le> 1 + 1 / 4" using AB by linarith
    then have "(A + B) * w \<le> (1 + 1 / 4) * w" using w0 by (rule mult_right_mono)
    then have sw_q: "sw \<le> w + w / 4" by (simp add: sw_def algebra_simps)
    have "sw / 2 ^ 53 \<le> sw / 4" using sw0 by (simp add: field_simps)
    then have "(sw + sw / 2 ^ 53) / 2 ^ 53 \<le> (sw + sw / 4) / 2 ^ 53"
      by (simp add: divide_right_mono)
    also have "\<dots> \<le> (25 / 16 * w) / 2 ^ 53"
      using sw_q by (intro divide_right_mono) auto
    finally have "(sw + sw / 2 ^ 53) / 2 ^ 53 \<le> (25 / 16 * w) / 2 ^ 53" .
    moreover have "sw / 2 ^ 53 \<le> (5 / 4 * w) / 2 ^ 53"
      using sw_q by (intro divide_right_mono) auto
    ultimately have "(sw + sw / 2 ^ 53) / 2 ^ 53 + sw / 2 ^ 53 + w / 2 ^ 53
        \<le> (25 / 16 * w) / 2 ^ 53 + (5 / 4 * w) / 2 ^ 53 + w / 2 ^ 53" by linarith
    also have "\<dots> \<le> w / 2 ^ 51" using w0 by (simp add: field_simps)
    finally show ?thesis .
  qed
  finally have "\<bar>r - v\<bar> \<le> \<bar>v\<bar> / 2 ^ 51" by (simp add: w_def)
  then show ?thesis using p q r by simp
qed

lemma ewma_f64_bound_p8:
  assumes "2 powi (- 1000) \<le> \<bar>v\<bar>" "\<bar>v\<bar> \<le> 2 powi 998"
  shows "\<exists>r. ewma_f64 (fl64 EWMA_ALPHA_p8) (Some (Finite v)) (Finite v) = Finite r
            \<and> \<bar>r - v\<bar> \<le> \<bar>v\<bar> / 2 ^ 51"
proof -
  have "\<exists>r. fop (+) (fop (*) (Finite (3602879701896397 / 18014398509481984)) (Finite v))
                  (fop (*) (Finite (7205759403792794 / 2 ^ 53)) (Finite v)) = Finite r
            \<and> \<bar>r - v\<bar> \<le> \<bar>v\<bar> / 2 ^ 51"
    by (rule blend_f64_bound [OF _ _ _ _ _ assms]) simp_all
  then show ?thesis
    by (simp only: ewma_f64_def option.case alpha_p8_f64 one_minus_alpha_p8)
qed

lemma ewma_f64_bound_p7:
  assumes "2 powi (- 1000) \<le> \<bar>v\<bar>" "\<bar>v\<bar> \<le> 2 powi 998"
  shows "\<exists>r. ewma_f64 (fl64 EWMA_ALPHA_p7) (Some (Finite v)) (Finite v) = Finite r
            \<and> \<bar>r - v\<bar> \<le> \<bar>v\<bar> / 2 ^ 51"
proof -
  have "\<exists>r. fop (+) (fop (*) (Finite (3602879701896397 / 36028797018963968)) (Finite v))
                  (fop (*) (Finite (8106479329266893 / 2 ^ 53)) (Finite v)) = Finite r
            \<and> \<bar>r - v\<bar> \<le> \<bar>v\<bar> / 2 ^ 51"
    by (rule blend_f64_bound [OF _ _ _ _ _ assms]) simp_all
  then show ?thesis
    by (simp only: ewma_f64_def option.case alpha_p7_f64 one_minus_alpha_p7)
qed

lemma three_in_range: "2 powi (- 1000) \<le> \<bar>3::real\<bar> \<and> \<bar>3::real\<bar> \<le> 2 powi 998"
proof -
  have "(2::real) powi (- 1000) \<le> 2 powi 0" by (intro power_int_increasing) auto
  moreover have "(2::real) powi 2 \<le> 2 powi 998" by (intro power_int_increasing) auto
  ultimately show ?thesis by simp
qed

subsection \<open>First sample and fixed point\<close>

text \<open>
  Claim C7 says that feeding a sample equal to the current EWMA leaves the EWMA
  unchanged under the implementation's arithmetic. Counterexample (Phase 8,
  \<open>EWMA_ALPHA = 0.2\<close>): with ECU\_A at 11.0 V and DCDC at 14.0 V the first sample sets the
  EWMA to 3.0; the same voltages again give \<open>0.2 * 3.0 + (1.0 - 0.2) * 3.0\<close>, which in
  double precision is \<open>3 + 2^-51\<close> (printed 3.0000000000000004), not 3.0.
\<close>

theorem C7_fixed_point_fails_in_double:
  "update_ewma_f64 (fl64 EWMA_ALPHA_p8) None (Finite 11) (Finite 14) = Finite 3
   \<and> update_ewma_f64 (fl64 EWMA_ALPHA_p8) (Some (Finite 3)) (Finite 11) (Finite 14)
       = Finite (3 + 1 / 2 ^ 51)
   \<and> Finite (3 + 1 / 2 ^ 51) \<noteq> Finite 3"
proof -
  have delta: "fop (-) (Finite 14) (Finite 11) = Finite 3"
    by (simp add: f64_defs)
  have p: "fop (*) (Finite (3602879701896397 / 18014398509481984)) (Finite 3)
      = Finite (5404319552844596 / 2 ^ 53)"
    by (simp add: f64_defs)
  have q: "fop (*) (Finite (7205759403792794 / 2 ^ 53)) (Finite 3)
      = Finite (5404319552844596 / 2 ^ 51)"
    by (simp add: f64_defs)
  have r: "fop (+) (Finite (5404319552844596 / 2 ^ 53)) (Finite (5404319552844596 / 2 ^ 51))
      = Finite (3 + 1 / 2 ^ 51)"
    by (simp add: f64_defs)
  have first: "update_ewma_f64 (fl64 EWMA_ALPHA_p8) None (Finite 11) (Finite 14) = Finite 3"
    by (simp only: update_ewma_f64_def ewma_f64_def delta option.case)
  have second: "update_ewma_f64 (fl64 EWMA_ALPHA_p8) (Some (Finite 3)) (Finite 11) (Finite 14)
       = Finite (3 + 1 / 2 ^ 51)"
    by (simp only: update_ewma_f64_def ewma_f64_def alpha_p8_f64 delta option.case p one_minus_alpha_p8 q r)
  have differ: "Finite (3 + 1 / 2 ^ 51) \<noteq> Finite 3"
    by simp
  show ?thesis
    using first second differ by blast
qed

lemma update_drift_ewma:
  "ewma_delta_a (snd (update_drift ts a d s)) =
     Some (case ewma_delta_a s of None \<Rightarrow> d - a
           | Some e \<Rightarrow> EWMA_ALPHA_p8 * (d - a) + (1 - EWMA_ALPHA_p8) * e)"
  by (simp add: update_drift_def Let_def)

lemma blend_fixed: "alpha * v + (1 - alpha) * v = (v::real)"
  by (simp add: algebra_simps)

lemma update_drift_repeat:
  "tss \<noteq> [] \<Longrightarrow> ewma_delta_a s = None \<or> ewma_delta_a s = Some (d - a) \<Longrightarrow>
   ewma_delta_a (fold (\<lambda>ts s. snd (update_drift ts a d s)) tss s) = Some (d - a)"
proof (induction tss arbitrary: s)
  case Nil
  then show ?case by simp
next
  case (Cons ts tss)
  have step: "ewma_delta_a (snd (update_drift ts a d s)) = Some (d - a)"
    using Cons.prems(2) by (auto simp add: update_drift_ewma blend_fixed)
  show ?case
  proof (cases tss)
    case Nil
    then show ?thesis using step by simp
  next
    case (Cons t' rest)
    then show ?thesis
      using Cons.IH [of "snd (update_drift ts a d s)"] step by simp
  qed
qed

text \<open>
  Claim C7, amended. After the first metric sample the EWMA equals that sample's value
  exactly (also in double precision). If the EWMA equals \<open>v\<close> and a sample equal to \<open>v\<close>
  is fed, the new EWMA is \<open>\<alpha> * v + (1 - \<alpha>) * v\<close>: in exact arithmetic this is \<open>v\<close>, so that
  the EWMA after N identical samples is that value; in the implementation's double
  precision it is \<open>v\<close> up to rounding: for \<open>2^-1000 \<le> |v| \<le> 2^998\<close> the result is finite
  and differs from \<open>v\<close> by at most \<open>|v| / 2^51\<close>, with either phase's \<open>\<alpha>\<close>.
\<close>

theorem C7_ewma_first_sample_and_fixed_point:
  "(ewma_delta_a s8 = None \<longrightarrow> ewma_delta_a (snd (update_drift ts a d s8)) = Some (d - a))
   \<and> (ewma_delta_a s8 = Some (d - a)
       \<longrightarrow> ewma_delta_a (snd (update_drift ts a d s8)) = Some (d - a))
   \<and> (tss \<noteq> [] \<and> ewma_delta_a s8 = None
       \<longrightarrow> ewma_delta_a (fold (\<lambda>ts s. snd (update_drift ts a d s)) tss s8) = Some (d - a))
   \<and> (V_D s7 = Some d \<and> V_A s7 = Some a \<and> V_B s7 = Some b \<and> ewma_deltaA s7 = None
       \<longrightarrow> (\<exists>r. update_stats_and_rules t s7 = Inr r
                 \<and> ewma_deltaA (snd r) = Some (d - a) \<and> ewma_deltaB (snd r) = Some (d - b)))
   \<and> (V_D s7 = Some d \<and> V_A s7 = Some a \<and> V_B s7 = Some b
        \<and> ewma_deltaA s7 = Some (d - a) \<and> ewma_deltaB s7 = Some (d - b)
       \<longrightarrow> (\<exists>r. update_stats_and_rules t s7 = Inr r
                 \<and> ewma_deltaA (snd r) = Some (d - a) \<and> ewma_deltaB (snd r) = Some (d - b)))
   \<and> update_ewma_f64 alpha None a64 d64 = fop (-) d64 a64
   \<and> (2 powi (- 1000) \<le> \<bar>v\<bar> \<and> \<bar>v\<bar> \<le> 2 powi 998
       \<longrightarrow> (\<exists>r. ewma_f64 (fl64 EWMA_ALPHA_p8) (Some (Finite v)) (Finite v) = Finite r
                 \<and> \<bar>r - v\<bar> \<le> \<bar>v\<bar> / 2 ^ 51)
         \<and> (\<exists>r. ewma_f64 (fl64 EWMA_ALPHA_p7) (Some (Finite v)) (Finite v) = Finite r
                 \<and> \<bar>r - v\<bar> \<le> \<bar>v\<bar> / 2 ^ 51))"
proof (intro conjI impI)
  show "ewma_delta_a (snd (update_drift ts a d s8)) = Some (d - a)" if "ewma_delta_a s8 = None"
    using that by (simp add: update_drift_ewma)
  show "ewma_delta_a (snd (update_drift ts a d s8)) = Some (d - a)"
    if "ewma_delta_a s8 = Some (d - a)"
    using that by (simp add: update_drift_ewma blend_fixed)
  show "ewma_delta_a (fold (\<lambda>ts s. snd (update_drift ts a d s)) tss s8) = Some (d - a)"
    if "tss \<noteq> [] \<and> ewma_delta_a s8 = None"
    using that update_drift_repeat [of tss s8 d a] by simp
  show "\<exists>r. update_stats_and_rules t s7 = Inr r
            \<and> ewma_deltaA (snd r) = Some (d - a) \<and> ewma_deltaB (snd r) = Some (d - b)"
    if "V_D s7 = Some d \<and> V_A s7 = Some a \<and> V_B s7 = Some b \<and> ewma_deltaA s7 = None"
    using that by (simp add: update_stats_and_rules_def Let_def)
  show "\<exists>r. update_stats_and_rules t s7 = Inr r
            \<and> ewma_deltaA (snd r) = Some (d - a) \<and> ewma_deltaB (snd r) = Some (d - b)"
    if "V_D s7 = Some d \<and> V_A s7 = Some a \<and> V_B s7 = Some b
        \<and> ewma_deltaA s7 = Some (d - a) \<and> ewma_deltaB s7 = Some (d - b)"
    using that by (simp add: update_stats_and_rules_def Let_def blend_fixed)
  show "update_ewma_f64 alpha None a64 d64 = fop (-) d64 a64"
    by (simp add: update_ewma_f64_def ewma_f64_def)
  show "\<exists>r. ewma_f64 (fl64 EWMA_ALPHA_p8) (Some (Finite v)) (Finite v) = Finite r
            \<and> \<bar>r - v\<bar> \<le> \<bar>v\<bar> / 2 ^ 51"
    if "2 powi (- 1000) \<le> \<bar>v\<bar> \<and> \<bar>v\<bar> \<le> 2 powi 998"
    using that ewma_f64_bound_p8 [of v] by blast
  show "\<exists>r. ewma_f64 (fl64 EWMA_ALPHA_p7) (Some (Finite v)) (Finite v) = Finite r
            \<and> \<bar>r - v\<bar> \<le> \<bar>v\<bar> / 2 ^ 51"
    if "2 powi (- 1000) \<le> \<bar>v\<bar> \<and> \<bar>v\<bar> \<le> 2 powi 998"
    using that ewma_f64_bound_p7 [of v] by blast
qed

theorem C7_ewma_first_sample_and_fixed_point_witness:
  "ewma_delta_a (snd (update_drift 0 11 14 warm_p8)) = Some 3
   \<and> ewma_delta_a (snd (update_drift 1000 11 14 (warm_p8\<lparr>ewma_delta_a := Some 3\<rparr>))) = Some 3
   \<and> ewma_delta_a (fold (\<lambda>ts s. snd (update_drift ts 11 14 s)) [0, 1000, 2000] warm_p8) = Some 3
   \<and> update_ewma_f64 (fl64 EWMA_ALPHA_p8) None (Finite 11) (Finite 14) = Finite 3
   \<and> 2 powi (- 1000) \<le> \<bar>3::real\<bar> \<and> \<bar>3::real\<bar> \<le> 2 powi 998
   \<and> (\<exists>r. ewma_f64 (fl64 EWMA_ALPHA_p8) (Some (Finite 3)) (Finite 3) = Finite r
           \<and> \<bar>r - 3\<bar> \<le> \<bar>3\<bar> / 2 ^ 51)"
proof -
  have n: "ewma_delta_a warm_p8 = None"
    by (simp add: warm_p8_def init_p8_def)
  have e: "ewma_delta_a (warm_p8\<lparr>ewma_delta_a := Some 3\<rparr>) = Some (14 - 11)"
    by simp
  have f: "fop (-) (Finite 14) (Finite 11) = Finite 3"
    by (simp add: f64_defs)
  have c1: "ewma_delta_a (snd (update_drift 0 11 14 warm_p8)) = Some 3"
    using C7_ewma_first_sample_and_fixed_point [of warm_p8 0 11 14] n by simp
  have c2: "ewma_delta_a (snd (update_drift 1000 11 14 (warm_p8\<lparr>ewma_delta_a := Some 3\<rparr>))) = Some 3"
    using C7_ewma_first_sample_and_fixed_point
      [of "warm_p8\<lparr>ewma_delta_a := Some 3\<rparr>" 1000 11 14] e by simp
  have c3: "ewma_delta_a (fold (\<lambda>ts s. snd (update_drift ts 11 14 s)) [0, 1000, 2000] warm_p8) = Some 3"
    using C7_ewma_first_sample_and_fixed_point [of warm_p8 ts 11 14 "[0, 1000, 2000]"] n
    by simp
  have c4: "update_ewma_f64 (fl64 EWMA_ALPHA_p8) None (Finite 11) (Finite 14) = Finite 3"
    using C7_ewma_first_sample_and_fixed_point
      [of s8 ts a d tss s7 b t "fl64 EWMA_ALPHA_p8" "Finite 11" "Finite 14"] f
    by simp
  have c5: "\<exists>r. ewma_f64 (fl64 EWMA_ALPHA_p8) (Some (Finite 3)) (Finite 3) = Finite r
           \<and> \<bar>r - 3\<bar> \<le> \<bar>3\<bar> / 2 ^ 51"
    using C7_ewma_first_sample_and_fixed_point [of s8 ts a d tss s7 b t alpha a64 d64 3]
      three_in_range
    by blast
  show ?thesis
    using c1 c2 c3 c4 c5 three_in_range by blast
qed

end
